theory Spec2Isabelle
  imports Main
begin

text \<open>
  A shallow embedding of \<^verbatim>\<open>src/session.ts\<close>: the effect resolver that reads the narration
  with regular expressions, the narration client with its retries, and the session
  coordinator with its join, act and query-state operations.

  What the embedding fixes.  A string is a list of 8-bit code units.  The numbers of the
  program are whole numbers held in doubles: a finite number is its integer value, and
  every conversion and every difference or sum is rounded to the nearest double, with
  \<^verbatim>\<open>Infinity\<close> beyond the range; \<^verbatim>\<open>NaN\<close> and a value that is no number appear in the
  fields where the code can produce them.  Mutation is state passing: each method returns
  the new value of what it changes.  A request reads the clock once.  The
  storage and the registry answer every call; the narration backend may reject.
\<close>

section \<open>Strings and characters\<close>

text \<open>
  Strings are lists of 8-bit code units (ASCII and Latin-1 text).  The predicates below
  are the character classes the regular expressions of \<^verbatim>\<open>session.ts\<close> use.  They are
  written on the bits of a character (least significant bit first), which the simplifier
  evaluates quickly; the lemmas after them list the characters of each class, so each
  definition can be read off its lemma.
\<close>

fun isSpaceChar :: "char \<Rightarrow> bool" where
  "isSpaceChar (Char b0 b1 b2 b3 b4 b5 b6 b7) =
     (\<not> b6 \<and> \<not> b4 \<and>
      (if b5 then \<not> b3 \<and> \<not> b2 \<and> \<not> b1 \<and> \<not> b0
       else \<not> b7 \<and> b3 \<and> (if b2 then \<not> b1 else (b1 \<or> b0))))"

fun isDigitChar :: "char \<Rightarrow> bool" where
  "isDigitChar (Char b0 b1 b2 b3 b4 b5 b6 b7) =
     (\<not> b7 \<and> \<not> b6 \<and> b5 \<and> b4 \<and> (if b3 then \<not> b2 \<and> \<not> b1 else True))"

fun isUpperChar :: "char \<Rightarrow> bool" where
  "isUpperChar (Char b0 b1 b2 b3 b4 b5 b6 b7) =
     (\<not> b7 \<and> b6 \<and> \<not> b5 \<and>
      (if b4 then (if b3 then \<not> b2 \<and> \<not> (b1 \<and> b0) else True) else (b3 \<or> b2 \<or> b1 \<or> b0)))"

fun isLowerChar :: "char \<Rightarrow> bool" where
  "isLowerChar (Char b0 b1 b2 b3 b4 b5 b6 b7) =
     (\<not> b7 \<and> b6 \<and> b5 \<and>
      (if b4 then (if b3 then \<not> b2 \<and> \<not> (b1 \<and> b0) else True) else (b3 \<or> b2 \<or> b1 \<or> b0)))"

fun lowerChar :: "char \<Rightarrow> char" where
  "lowerChar (Char b0 b1 b2 b3 b4 b5 b6 b7) =
     (if isUpperChar (Char b0 b1 b2 b3 b4 b5 b6 b7) then Char b0 b1 b2 b3 b4 True b6 b7
      else Char b0 b1 b2 b3 b4 b5 b6 b7)"

fun upperChar :: "char \<Rightarrow> char" where
  "upperChar (Char b0 b1 b2 b3 b4 b5 b6 b7) =
     (if isLowerChar (Char b0 b1 b2 b3 b4 b5 b6 b7) then Char b0 b1 b2 b3 b4 False b6 b7
      else Char b0 b1 b2 b3 b4 b5 b6 b7)"

definition isWordChar :: "char \<Rightarrow> bool" where
  "isWordChar c = (isLowerChar c \<or> isUpperChar c \<or> isDigitChar c \<or> c = CHR ''_'')"

definition bools :: "bool list" where
  "bools = [False, True]"

definition allChars :: "char list" where
  "allChars = [Char b0 b1 b2 b3 b4 b5 b6 b7. b7 \<leftarrow> bools, b6 \<leftarrow> bools, b5 \<leftarrow> bools,
     b4 \<leftarrow> bools, b3 \<leftarrow> bools, b2 \<leftarrow> bools, b1 \<leftarrow> bools, b0 \<leftarrow> bools]"

lemma set_bools: "set bools = UNIV"
  by (auto simp: bools_def)

lemma set_allChars: "set allChars = UNIV"
proof -
  have "c \<in> set allChars" for c
    by (cases c) (simp add: allChars_def set_bools, blast)
  then show ?thesis by auto
qed

lemma upper_chars: "filter isUpperChar allChars = ''ABCDEFGHIJKLMNOPQRSTUVWXYZ''"
  by code_simp

lemma lower_chars: "filter isLowerChar allChars = ''abcdefghijklmnopqrstuvwxyz''"
  by code_simp

lemma digit_chars: "filter isDigitChar allChars = ''0123456789''"
  by code_simp

lemma space_chars:
  "filter isSpaceChar allChars =
     [CHR 0x09, CHR 0x0A, CHR 0x0B, CHR 0x0C, CHR 0x0D, CHR 0x20, CHR 0xA0]"
  by code_simp

lemma lowerChar_letters:
  "map lowerChar ''ABCDEFGHIJKLMNOPQRSTUVWXYZ'' = ''abcdefghijklmnopqrstuvwxyz''"
  by code_simp

lemma lowerChar_changes: "filter (\<lambda>c. lowerChar c \<noteq> c) allChars = ''ABCDEFGHIJKLMNOPQRSTUVWXYZ''"
  by code_simp

lemma upperChar_letters:
  "map upperChar ''abcdefghijklmnopqrstuvwxyz'' = ''ABCDEFGHIJKLMNOPQRSTUVWXYZ''"
  by code_simp

lemma upperChar_changes: "filter (\<lambda>c. upperChar c \<noteq> c) allChars = ''abcdefghijklmnopqrstuvwxyz''"
  by code_simp

text \<open>\<^verbatim>\<open>String.prototype.toLowerCase\<close>, \<^verbatim>\<open>trim\<close>, \<^verbatim>\<open>includes\<close>, \<^verbatim>\<open>split(' ')\<close> and
  \<^verbatim>\<open>join(' ')\<close>.\<close>

definition toLowerCase :: "string \<Rightarrow> string" where
  "toLowerCase s = map lowerChar s"

definition trim :: "string \<Rightarrow> string" where
  "trim s = rev (dropWhile isSpaceChar (rev (dropWhile isSpaceChar s)))"

fun startsWith :: "string \<Rightarrow> string \<Rightarrow> bool" where
  "startsWith s [] = True"
| "startsWith [] (y # ys) = False"
| "startsWith (x # xs) (y # ys) = (x = y \<and> startsWith xs ys)"

fun str_includes :: "string \<Rightarrow> string \<Rightarrow> bool" where
  "str_includes [] sub = startsWith [] sub"
| "str_includes (x # xs) sub = (startsWith (x # xs) sub \<or> str_includes xs sub)"

fun splitSpace :: "string \<Rightarrow> string list" where
  "splitSpace [] = [[]]"
| "splitSpace (c # cs) =
     (if c = CHR '' '' then [] # splitSpace cs
      else (case splitSpace cs of [] \<Rightarrow> [[c]] | w # ws \<Rightarrow> (c # w) # ws))"

fun joinSpace :: "string list \<Rightarrow> string" where
  "joinSpace [] = []"
| "joinSpace [w] = w"
| "joinSpace (w # ws) = w @ CHR '' '' # joinSpace ws"

section \<open>Numbers\<close>

text \<open>
  A JavaScript number is an IEEE 754 double.  The numbers of this program are whole
  numbers: \<open>Num n\<close> is the finite number of integer value \<open>n\<close>, and beside it there are
  \<^verbatim>\<open>Infinity\<close>, \<^verbatim>\<open>-Infinity\<close> and \<^verbatim>\<open>NaN\<close>.  \<open>Obj\<close> is a value that is no number but
  sits where a number is expected: \<^verbatim>\<open>hpMap[name]\<close> is a property read on an object
  literal, which also finds what the literal inherits from \<^verbatim>\<open>Object.prototype\<close>; in
  arithmetic and comparisons it converts to \<^verbatim>\<open>NaN\<close>.

  \<open>roundInt\<close> rounds an integer to the nearest integer that a double with its 53
  significant bits can hold, ties to the even significand (\<open>bitLength\<close> is the number
  of binary digits); below \<open>2^53\<close> every integer is exact.  \<open>toDouble\<close> is the
  conversion of a mathematical integer to a number: the rounded value, or an infinity
  when that value needs more than 1024 bits, which is from \<open>2^1024 - 2^970\<close> on.
\<close>

datatype jsval = Num int | PosInfinity | NegInfinity | NaN | Obj

function bitLength :: "int \<Rightarrow> nat" where
  "bitLength n = (if n \<le> 0 then 0 else Suc (bitLength (n div 2)))"
  by pat_completeness auto
termination
  by (relation "measure nat") auto

declare bitLength.simps [simp del]

definition roundInt :: "int \<Rightarrow> int" where
  "roundInt n =
     (let m = \<bar>n\<bar>; e = bitLength m - 53
      in if e = 0 then n
         else (let q = m div 2 ^ e; r = m mod 2 ^ e;
                   q' = (if 2 * r > 2 ^ e \<or> (2 * r = 2 ^ e \<and> odd q) then q + 1 else q)
               in sgn n * (q' * 2 ^ e)))"

definition toDouble :: "int \<Rightarrow> jsval" where
  "toDouble n =
     (let v = roundInt n
      in if bitLength \<bar>v\<bar> > 1024 then (if n < 0 then NegInfinity else PosInfinity) else Num v)"

text \<open>\<^verbatim>\<open>x - n\<close> for a finite \<open>n\<close>, \<^verbatim>\<open>Math.max(0, x)\<close> and \<^verbatim>\<open>x > 0\<close>.\<close>

fun js_minus :: "jsval \<Rightarrow> int \<Rightarrow> jsval" where
  "js_minus (Num a) n = toDouble (a - n)"
| "js_minus PosInfinity n = PosInfinity"
| "js_minus NegInfinity n = NegInfinity"
| "js_minus NaN n = NaN"
| "js_minus Obj n = NaN"

fun math_max0 :: "jsval \<Rightarrow> jsval" where
  "math_max0 (Num a) = Num (max 0 a)"
| "math_max0 PosInfinity = PosInfinity"
| "math_max0 NegInfinity = Num 0"
| "math_max0 NaN = NaN"
| "math_max0 Obj = NaN"

fun js_positive :: "jsval \<Rightarrow> bool" where
  "js_positive (Num a) = (a > 0)"
| "js_positive PosInfinity = True"
| "js_positive NegInfinity = False"
| "js_positive NaN = False"
| "js_positive Obj = False"

text \<open>\<^verbatim>\<open>parseInt(s, 10)\<close>: leading white space, an optional sign, then the longest run of
  digits, converted to a number; \<^verbatim>\<open>NaN\<close> when there is no digit.  (ECMAScript lets an
  implementation replace the digits after the 20th by zeros before the conversion; the
  conversion here is that of the exact value.)\<close>

definition digitVal :: "char \<Rightarrow> int" where
  "digitVal c = int (length (takeWhile (\<lambda>d. d \<noteq> c) ''0123456789''))"

definition digitsVal :: "string \<Rightarrow> int" where
  "digitsVal ds = foldl (\<lambda>n c. 10 * n + digitVal c) 0 ds"

definition parseInt :: "string \<Rightarrow> jsval" where
  "parseInt s =
     (let t = dropWhile isSpaceChar s;
          neg = (case t of [] \<Rightarrow> False | c # _ \<Rightarrow> c = CHR ''-'');
          u = (case t of [] \<Rightarrow> [] | c # cs \<Rightarrow> if c = CHR ''-'' \<or> c = CHR ''+'' then cs else t);
          ds = takeWhile isDigitChar u
      in if ds = [] then NaN else toDouble (if neg then - digitsVal ds else digitsVal ds))"

section \<open>Regular expressions\<close>

text \<open>
  The regular expressions of the source are embedded as syntax trees and matched with the
  backtracking semantics of ECMAScript: \<open>rmatch\<close> returns every way the expression can match
  at the current position, in the order in which a backtracking matcher tries them, so the
  head of the list is the match JavaScript reports.  Quantifiers are applied to character
  classes only, which is all the source does (\<^verbatim>\<open>\s+\<close>, \<^verbatim>\<open>\d+\<close>, \<^verbatim>\<open>[A-Za-z ']*?\<close>, ...).
\<close>

datatype cc = CChar char | CUpper | CLower | CSpace | CNonSpace | CDigit

datatype rx =
    Atom "cc list"
  | NAtom "cc list"
  | Eps
  | Seq rx rx
  | Alt rx rx
  | Star "cc list"
  | LazyStar "cc list"
  | Opt rx
  | Group nat rx
  | Bol
  | Eol
  | WordB

text \<open>With the flag \<^verbatim>\<open>i\<close> two characters match when their upper-case forms are equal.\<close>

fun ccmatch :: "bool \<Rightarrow> char \<Rightarrow> cc \<Rightarrow> bool" where
  "ccmatch i c (CChar x) = (if i then upperChar x = upperChar c else x = c)"
| "ccmatch i c CUpper = (isUpperChar c \<or> (i \<and> isLowerChar c))"
| "ccmatch i c CLower = (isLowerChar c \<or> (i \<and> isUpperChar c))"
| "ccmatch i c CSpace = isSpaceChar c"
| "ccmatch i c CNonSpace = (\<not> isSpaceChar c)"
| "ccmatch i c CDigit = isDigitChar c"

text \<open>The state of a match: the character before the position, the input left, the
  characters consumed since the innermost open group started (latest first), and the
  groups captured so far (latest first).\<close>

datatype mstate =
  MState (prev: "char option") (rest: string) (acc: string) (caps: "(nat \<times> string) list")

definition eat :: "mstate \<Rightarrow> char \<Rightarrow> string \<Rightarrow> mstate" where
  "eat st x xs = MState (Some x) xs (x # acc st) (caps st)"

function rmatch :: "bool \<Rightarrow> rx \<Rightarrow> mstate \<Rightarrow> mstate list" where
  "rmatch i (Atom cs) st =
     (case rest st of [] \<Rightarrow> []
      | x # xs \<Rightarrow> if list_ex (ccmatch i x) cs then [eat st x xs] else [])"
| "rmatch i (NAtom cs) st =
     (case rest st of [] \<Rightarrow> []
      | x # xs \<Rightarrow> if list_ex (ccmatch i x) cs then [] else [eat st x xs])"
| "rmatch i Eps st = [st]"
| "rmatch i (Seq a b) st = concat (map (rmatch i b) (rmatch i a st))"
| "rmatch i (Alt a b) st = rmatch i a st @ rmatch i b st"
| "rmatch i (Star cs) st =
     (case rest st of [] \<Rightarrow> [st]
      | x # xs \<Rightarrow>
          if list_ex (ccmatch i x) cs then rmatch i (Star cs) (eat st x xs) @ [st] else [st])"
| "rmatch i (LazyStar cs) st =
     (case rest st of [] \<Rightarrow> [st]
      | x # xs \<Rightarrow>
          if list_ex (ccmatch i x) cs then st # rmatch i (LazyStar cs) (eat st x xs) else [st])"
| "rmatch i (Opt a) st = rmatch i a st @ [st]"
| "rmatch i (Group n a) st =
     map (\<lambda>st'. MState (prev st') (rest st') (acc st' @ acc st) ((n, rev (acc st')) # caps st'))
         (rmatch i a (MState (prev st) (rest st) [] (caps st)))"
| "rmatch i Bol st = (if prev st = None then [st] else [])"
| "rmatch i Eol st = (if rest st = [] then [st] else [])"
| "rmatch i WordB st =
     (let a = (case prev st of None \<Rightarrow> False | Some c \<Rightarrow> isWordChar c);
          b = (case rest st of [] \<Rightarrow> False | c # _ \<Rightarrow> isWordChar c)
      in if a \<noteq> b then [st] else [])"
  by pat_completeness auto
termination
  by (relation "measures [\<lambda>(i, r, st). size r, \<lambda>(i, r, st). length (rest st)]")
     (auto simp: eat_def)

declare rmatch.simps(6,7) [simp del]

text \<open>Sequences, alternatives and literal words; \<^verbatim>\<open>x+\<close> is \<^verbatim>\<open>xx*\<close>.\<close>

fun seqs :: "rx list \<Rightarrow> rx" where
  "seqs [] = Eps"
| "seqs [r] = r"
| "seqs (r # rs) = Seq r (seqs rs)"

fun alts :: "rx list \<Rightarrow> rx" where
  "alts [] = Eps"
| "alts [r] = r"
| "alts (r # rs) = Alt r (alts rs)"

definition lit :: "string \<Rightarrow> rx" where
  "lit s = seqs (map (\<lambda>c. Atom [CChar c]) s)"

definition words :: "string list \<Rightarrow> rx" where
  "words ws = alts (map lit ws)"

definition Plus :: "cc list \<Rightarrow> rx" where
  "Plus cs = Seq (Atom cs) (Star cs)"

text \<open>The input left and the characters consumed always add up to the same length, so a
  match that consumed something leaves a shorter input.\<close>

lemma rmatch_length:
  "st' \<in> set (rmatch i r st) \<Longrightarrow>
     length (rest st') + length (acc st') = length (rest st) + length (acc st)"
proof (induction i r st arbitrary: st' rule: rmatch.induct)
  case (1 i cs st)
  then show ?case by (cases "rest st") (auto simp: eat_def split: if_splits)
next
  case (2 i cs st)
  then show ?case by (cases "rest st") (auto simp: eat_def split: if_splits)
next
  case (3 i st)
  then show ?case by simp
next
  case (4 i a b st)
  from 4(3) obtain m where m: "m \<in> set (rmatch i a st)" "st' \<in> set (rmatch i b m)" by auto
  from 4(1)[OF m(1)] 4(2)[OF m(1) m(2)] show ?case by simp
next
  case (5 i a b st)
  then show ?case by auto
next
  case (6 i cs st)
  show ?case
  proof (cases "rest st")
    case Nil
    with 6(2) show ?thesis by (subst (asm) rmatch.simps) simp
  next
    case (Cons x xs)
    show ?thesis
    proof (cases "list_ex (ccmatch i x) cs")
      case True
      with 6(2) Cons have "st' \<in> set (rmatch i (Star cs) (eat st x xs)) \<or> st' = st"
        by (subst (asm) rmatch.simps) auto
      then show ?thesis
      proof
        assume "st' \<in> set (rmatch i (Star cs) (eat st x xs))"
        from 6(1)[OF Cons True this] Cons show ?thesis by (simp add: eat_def)
      qed simp
    next
      case False
      with 6(2) Cons show ?thesis by (subst (asm) rmatch.simps) simp
    qed
  qed
next
  case (7 i cs st)
  show ?case
  proof (cases "rest st")
    case Nil
    with 7(2) show ?thesis by (subst (asm) rmatch.simps) simp
  next
    case (Cons x xs)
    show ?thesis
    proof (cases "list_ex (ccmatch i x) cs")
      case True
      with 7(2) Cons have "st' \<in> set (rmatch i (LazyStar cs) (eat st x xs)) \<or> st' = st"
        by (subst (asm) rmatch.simps) auto
      then show ?thesis
      proof
        assume "st' \<in> set (rmatch i (LazyStar cs) (eat st x xs))"
        from 7(1)[OF Cons True this] Cons show ?thesis by (simp add: eat_def)
      qed simp
    next
      case False
      with 7(2) Cons show ?thesis by (subst (asm) rmatch.simps) simp
    qed
  qed
next
  case (8 i a st)
  then show ?case by auto
next
  case (9 i n a st)
  from 9(2) obtain m where m: "m \<in> set (rmatch i a (MState (prev st) (rest st) [] (caps st)))"
    "st' = MState (prev m) (rest m) (acc m @ acc st) ((n, rev (acc m)) # caps m)" by auto
  from 9(1)[OF m(1)] m(2) show ?case by simp
next
  case (10 i st)
  then show ?case by (simp split: if_splits)
next
  case (11 i st)
  then show ?case by (simp split: if_splits)
next
  case (12 i st)
  then show ?case by (simp add: Let_def split: if_splits)
qed

lemma rmatch_progress:
  assumes "rmatch i r (MState p s [] []) = st # sts" and "acc st \<noteq> []"
  shows "length (rest st) < length s"
proof -
  have "st \<in> set (rmatch i r (MState p s [] []))" using assms(1) by simp
  from rmatch_length[OF this] assms(2) show ?thesis by (cases "acc st") auto
qed

text \<open>
  A match is the list of its groups, group 0 being the whole match.
  \<open>execFrom\<close> is \<^verbatim>\<open>RegExp.prototype.exec\<close> without the flag \<^verbatim>\<open>g\<close>: the first position, from
  the left, where the expression matches.  \<open>matchAllFrom\<close> is the iteration of
  \<^verbatim>\<open>String.prototype.matchAll\<close>: the search goes on where the last match ended, one
  character further when that match was empty.  \<open>replaceAllFrom\<close> is
  \<^verbatim>\<open>replace(/.../g, '')\<close> and \<open>replaceFirstFrom\<close> is \<^verbatim>\<open>replace(/.../, '')\<close>.
\<close>

type_synonym rmatch_result = "(nat \<times> string) list"

definition groupsOf :: "mstate \<Rightarrow> rmatch_result" where
  "groupsOf st = (0, rev (acc st)) # caps st"

definition grp :: "rmatch_result \<Rightarrow> nat \<Rightarrow> string option" where
  "grp m n = map_of m n"

fun execFrom :: "bool \<Rightarrow> rx \<Rightarrow> char option \<Rightarrow> string \<Rightarrow> rmatch_result option" where
  "execFrom i r p [] =
     (case rmatch i r (MState p [] [] []) of [] \<Rightarrow> None | st # _ \<Rightarrow> Some (groupsOf st))"
| "execFrom i r p (x # xs) =
     (case rmatch i r (MState p (x # xs) [] []) of
        [] \<Rightarrow> execFrom i r (Some x) xs
      | st # _ \<Rightarrow> Some (groupsOf st))"

definition rxTest :: "bool \<Rightarrow> rx \<Rightarrow> string \<Rightarrow> bool" where
  "rxTest i r s = (execFrom i r None s \<noteq> None)"

function matchAllFrom :: "bool \<Rightarrow> rx \<Rightarrow> char option \<Rightarrow> string \<Rightarrow> rmatch_result list" where
  "matchAllFrom i r p s =
     (case rmatch i r (MState p s [] []) of
        [] \<Rightarrow> (case s of [] \<Rightarrow> [] | x # xs \<Rightarrow> matchAllFrom i r (Some x) xs)
      | st # _ \<Rightarrow>
          groupsOf st #
          (if acc st = [] then (case s of [] \<Rightarrow> [] | x # xs \<Rightarrow> matchAllFrom i r (Some x) xs)
           else matchAllFrom i r (prev st) (rest st)))"
  by pat_completeness auto
termination
proof (relation "measure (\<lambda>(i, r, p, s). length s)", goal_cases)
  case (4 i r p s st sts)
  then show ?case using rmatch_progress[of i r p s st sts] by simp
qed auto

declare matchAllFrom.simps [simp del]

definition matchAll :: "bool \<Rightarrow> rx \<Rightarrow> string \<Rightarrow> rmatch_result list" where
  "matchAll i r s = matchAllFrom i r None s"

function replaceAllFrom :: "bool \<Rightarrow> rx \<Rightarrow> char option \<Rightarrow> string \<Rightarrow> string" where
  "replaceAllFrom i r p s =
     (case rmatch i r (MState p s [] []) of
        [] \<Rightarrow> (case s of [] \<Rightarrow> [] | x # xs \<Rightarrow> x # replaceAllFrom i r (Some x) xs)
      | st # _ \<Rightarrow>
          (if acc st = [] then (case s of [] \<Rightarrow> [] | x # xs \<Rightarrow> x # replaceAllFrom i r (Some x) xs)
           else replaceAllFrom i r (prev st) (rest st)))"
  by pat_completeness auto
termination
proof (relation "measure (\<lambda>(i, r, p, s). length s)", goal_cases)
  case (4 i r p s st sts)
  then show ?case using rmatch_progress[of i r p s st sts] by simp
qed auto

declare replaceAllFrom.simps [simp del]

definition replaceAll :: "bool \<Rightarrow> rx \<Rightarrow> string \<Rightarrow> string" where
  "replaceAll i r s = replaceAllFrom i r None s"

fun replaceFirstFrom :: "bool \<Rightarrow> rx \<Rightarrow> char option \<Rightarrow> string \<Rightarrow> string" where
  "replaceFirstFrom i r p [] = []"
| "replaceFirstFrom i r p (x # xs) =
     (case rmatch i r (MState p (x # xs) [] []) of
        [] \<Rightarrow> x # replaceFirstFrom i r (Some x) xs
      | st # _ \<Rightarrow> rest st)"

definition replaceFirst :: "bool \<Rightarrow> rx \<Rightarrow> string \<Rightarrow> string" where
  "replaceFirst i r s = replaceFirstFrom i r None s"

section \<open>Data model\<close>

text \<open>
  The interfaces \<^verbatim>\<open>Player\<close>, \<^verbatim>\<open>Message\<close>, \<^verbatim>\<open>CombatState\<close> and its enemies.  A player's
  \<^verbatim>\<open>hp\<close> is a finite whole number: it is 20 at the join, and \<^verbatim>\<open>Math.max(0, hp - dmg)\<close>
  and \<^verbatim>\<open>Math.min(20, hp + heal)\<close> with a finite amount are finite again.  An enemy's
  \<^verbatim>\<open>hp\<close> and the turn index are typed \<^verbatim>\<open>number\<close> as well, but at run time an enemy's
  \<^verbatim>\<open>hp\<close> can be \<^verbatim>\<open>Infinity\<close>, \<^verbatim>\<open>NaN\<close> or an object, and the turn index \<^verbatim>\<open>NaN\<close>.
\<close>

record Player =
  p_id :: string
  p_name :: string
  p_hp :: int
  inventory :: "string list"

record Message =
  actor :: string
  content :: string
  ts :: int

record Enemy =
  e_name :: string
  e_hp :: jsval

record CombatState =
  active :: bool
  turnOrder :: "string list"
  currentTurnIndex :: jsval
  enemies :: "Enemy list"

definition defaultCombatState :: CombatState where
  "defaultCombatState = \<lparr>active = False, turnOrder = [], currentTurnIndex = Num 0, enemies = []\<rparr>"

text \<open>A \<^verbatim>\<open>Map<string, Player>\<close> keeps its keys in insertion order: an association list,
  read with \<open>map_of\<close> (\<^verbatim>\<open>get\<close>, \<^verbatim>\<open>has\<close>).  \<open>map_set\<close> replaces the value of a key in
  place and appends a new key.\<close>

type_synonym player_map = "(string \<times> Player) list"

fun map_set :: "player_map \<Rightarrow> string \<Rightarrow> Player \<Rightarrow> player_map" where
  "map_set [] k v = [(k, v)]"
| "map_set ((k', v') # ps) k v = (if k' = k then (k, v) # ps else (k', v') # map_set ps k v)"

definition map_values :: "player_map \<Rightarrow> Player list" where
  "map_values ps = map snd ps"

text \<open>\<^verbatim>\<open>xs.find(P)\<close> followed by a mutation of the element found: the first element that
  satisfies \<open>P\<close> is updated in place.  \<^verbatim>\<open>findIndex\<close> and \<^verbatim>\<open>splice(i, 1)\<close> likewise.\<close>

fun mapFirst :: "('a \<Rightarrow> bool) \<Rightarrow> ('a \<Rightarrow> 'a) \<Rightarrow> 'a list \<Rightarrow> 'a list" where
  "mapFirst P f [] = []"
| "mapFirst P f (x # xs) = (if P x then f x # xs else x # mapFirst P f xs)"

fun removeFirst :: "('a \<Rightarrow> bool) \<Rightarrow> 'a list \<Rightarrow> 'a list" where
  "removeFirst P [] = []"
| "removeFirst P (x # xs) = (if P x then xs else x # removeFirst P xs)"

fun findIndex :: "('a \<Rightarrow> bool) \<Rightarrow> 'a list \<Rightarrow> nat option" where
  "findIndex P [] = None"
| "findIndex P (x # xs) = (if P x then Some 0 else map_option Suc (findIndex P xs))"

definition namedPlayer :: "string option \<Rightarrow> string \<times> Player \<Rightarrow> bool" where
  "namedPlayer nm kp = (Some (toLowerCase (p_name (snd kp))) = nm)"

definition updatePlayer :: "string option \<Rightarrow> (Player \<Rightarrow> Player) \<Rightarrow> player_map \<Rightarrow> player_map" where
  "updatePlayer nm f ps = mapFirst (namedPlayer nm) (\<lambda>kp. (fst kp, f (snd kp))) ps"

section \<open>Patterns of the effect resolver\<close>

text \<open>Building blocks: \<^verbatim>\<open>\s+\<close>, \<^verbatim>\<open>\d+\<close>, a word whose last letter is optional
  (\<^verbatim>\<open>takes?\<close>), \<^verbatim>\<open>[A-Za-z]\<close>, \<^verbatim>\<open>[A-Za-z ']\<close>, \<^verbatim>\<open>[A-Za-z\s]\<close>, \<^verbatim>\<open>[A-Za-z '\-]\<close>,
  \<^verbatim>\<open>(?:points?\s+of\s+)?\<close> and \<^verbatim>\<open>(?:hit\s+points?|hp)\<close>.\<close>

definition ws1 :: rx where
  "ws1 = Plus [CSpace]"

definition digits1 :: rx where
  "digits1 = Plus [CDigit]"

definition optLast :: "string \<Rightarrow> rx" where
  "optLast w = Seq (lit (butlast w)) (Opt (lit [last w]))"

definition letter :: "cc list" where
  "letter = [CUpper, CLower]"

definition nameChars :: "cc list" where
  "nameChars = [CUpper, CLower, CChar CHR '' '', CChar (CHR 0x27)]"

definition nameSpaces :: "cc list" where
  "nameSpaces = [CUpper, CLower, CSpace]"

definition itemChars :: "cc list" where
  "itemChars = [CUpper, CLower, CChar CHR '' '', CChar (CHR 0x27), CChar CHR ''-'']"

definition lazyName :: rx where
  "lazyName = Seq (Atom letter) (LazyStar nameChars)"

definition greedyName :: rx where
  "greedyName = Seq (Atom letter) (Star nameChars)"

definition itemName :: rx where
  "itemName = Seq (Atom letter) (Star itemChars)"

definition pointsOf :: rx where
  "pointsOf = Opt (seqs [optLast ''points'', ws1, lit ''of'', ws1])"

definition hitPoints :: rx where
  "hitPoints = seqs [lit ''hit'', ws1, optLast ''points'']"

definition theOpt :: rx where
  "theOpt = Opt (Seq (lit ''the'') ws1)"

text \<open>\<^verbatim>\<open>combatTriggers\<close> of \<^verbatim>\<open>detectCombatScenarios\<close>, all with the flag \<^verbatim>\<open>i\<close>:
  \<^verbatim>\<open>/(?:attack|combat|fight|battle|engage)(?:s|ing)?/\<close>,
  \<^verbatim>\<open>/(?:enemy|enemies|monster|monsters|creature|creatures|foe|foes)\s+(?:appear|emerges?|attack|charge)/\<close>,
  \<^verbatim>\<open>/(?:roll|make)\s+(?:initiative|an?\s+initiative)/\<close>,
  \<^verbatim>\<open>/initiative\s+(?:roll|order)/\<close>,
  \<^verbatim>\<open>/(?:a|the)\s+(?:goblin|orc|skeleton|dragon|wolf|spider|bandit|guard)(?:s)?\s+(?:attack|charge|leap|strike)/\<close>.\<close>

definition combatTriggers :: "rx list" where
  "combatTriggers =
    [Seq (words [''attack'', ''combat'', ''fight'', ''battle'', ''engage''])
         (Opt (words [''s'', ''ing''])),
     seqs [words [''enemy'', ''enemies'', ''monster'', ''monsters'', ''creature'', ''creatures'',
                  ''foe'', ''foes''],
           ws1,
           alts [lit ''appear'', optLast ''emerges'', lit ''attack'', lit ''charge'']],
     seqs [words [''roll'', ''make''], ws1,
           alts [lit ''initiative'', seqs [optLast ''an'', ws1, lit ''initiative'']]],
     seqs [lit ''initiative'', ws1, words [''roll'', ''order'']],
     seqs [words [''a'', ''the''], ws1,
           words [''goblin'', ''orc'', ''skeleton'', ''dragon'', ''wolf'', ''spider'', ''bandit'',
                  ''guard''],
           Opt (lit ''s''), ws1,
           words [''attack'', ''charge'', ''leap'', ''strike'']]]"

text \<open>\<^verbatim>\<open>enemyPatterns\<close>, all with the flags \<^verbatim>\<open>gi\<close>:
  \<^verbatim>\<open>/(?:a|the|\d+)\s+(goblin|orc|...|colossus)(?:s)?(?:\s+\((\d+)\s+HP\))?/\<close>,
  \<^verbatim>\<open>/(?:a|the|\d+)\s+([A-Za-z][A-Za-z\s]*?)\s+\((\d+)\s+HP\)/\<close>,
  \<^verbatim>\<open>/(?:a|the|\d+)\s+([A-Za-z][A-Za-z\s]*?)\s+(?:appears?|emerges?|materializes?|attacks?)/\<close>.\<close>

definition creatureNames :: "string list" where
  "creatureNames =
    [''goblin'', ''orc'', ''skeleton'', ''dragon'', ''wolf'', ''spider'', ''bandit'', ''guard'',
     ''troll'', ''ogre'', ''zombie'', ''ghoul'', ''wraith'', ''lich'', ''demon'', ''devil'',
     ''giant'', ''minotaur'', ''basilisk'', ''manticore'', ''harpy'', ''medusa'', ''cyclops'',
     ''hydra'', ''griffin'', ''pegasus'', ''unicorn'', ''phoenix'', ''roc'', ''kraken'',
     ''leviathan'', ''behemoth'', ''colossus'']"

definition counted :: rx where
  "counted = alts [lit ''a'', lit ''the'', digits1]"

definition statedHp :: rx where
  "statedHp = seqs [lit ''('', Group 2 digits1, ws1, lit ''HP'', lit '')'']"

definition enemyPatterns :: "rx list" where
  "enemyPatterns =
    [seqs [counted, ws1, Group 1 (words creatureNames), Opt (lit ''s''),
           Opt (Seq ws1 statedHp)],
     seqs [counted, ws1, Group 1 (Seq (Atom letter) (LazyStar nameSpaces)), ws1, statedHp],
     seqs [counted, ws1, Group 1 (Seq (Atom letter) (LazyStar nameSpaces)), ws1,
           alts [optLast ''appears'', optLast ''emerges'', optLast ''materializes'',
                 optLast ''attacks'']]]"

text \<open>\<^verbatim>\<open>/^(a|an|the)\s+/i\<close> of the name clean-up and \<^verbatim>\<open>/^(the|a|an)\s+/\<close> of
  \<^verbatim>\<open>findEnemyByName\<close>.\<close>

definition articlePrefix :: rx where
  "articlePrefix = seqs [Bol, Group 1 (words [''a'', ''an'', ''the'']), ws1]"

definition searchArticlePrefix :: rx where
  "searchArticlePrefix = seqs [Bol, Group 1 (words [''the'', ''a'', ''an'']), ws1]"

text \<open>\<^verbatim>\<open>damagePatterns\<close> of \<^verbatim>\<open>applyEnemyDamage\<close> (flags \<^verbatim>\<open>gi\<close>).  The flag paired with an
  expression is the value of
  \<^verbatim>\<open>pattern.source.startsWith('(\\d+)') || pattern.source.includes('deals')\<close>: the amount
  is group 1 and the name group 2.
  \<^verbatim>\<open>/deals\s+(\d+)\s+(?:points?\s+of\s+)?damage\s+to\s+(?:the\s+)?([A-Za-z][A-Za-z ']*)/\<close>,
  \<^verbatim>\<open>/(?:the\s+)?([A-Za-z][A-Za-z ']*?)\s+takes?\s+(\d+)\s+(?:points?\s+of\s+)?damage/\<close>,
  \<^verbatim>\<open>/(\d+)\s+(?:points?\s+of\s+)?damage\s+to\s+(?:the\s+)?([A-Za-z][A-Za-z ']*)/\<close>,
  \<^verbatim>\<open>/(?:the\s+)?([A-Za-z][A-Za-z ']*?)\s+suffers?\s+(\d+)\s+(?:points?\s+of\s+)?damage/\<close>,
  \<^verbatim>\<open>/strikes?\s+(?:the\s+)?([A-Za-z][A-Za-z ']*?)\s+for\s+(\d+)\s+damage/\<close>.\<close>

definition enemyDamagePatterns :: "(rx \<times> bool) list" where
  "enemyDamagePatterns =
    [(seqs [lit ''deals'', ws1, Group 1 digits1, ws1, pointsOf, lit ''damage'', ws1, lit ''to'',
            ws1, theOpt, Group 2 greedyName], True),
     (seqs [theOpt, Group 1 lazyName, ws1, optLast ''takes'', ws1, Group 2 digits1, ws1,
            pointsOf, lit ''damage''], False),
     (seqs [Group 1 digits1, ws1, pointsOf, lit ''damage'', ws1, lit ''to'', ws1, theOpt,
            Group 2 greedyName], True),
     (seqs [theOpt, Group 1 lazyName, ws1, optLast ''suffers'', ws1, Group 2 digits1, ws1,
            pointsOf, lit ''damage''], False),
     (seqs [optLast ''strikes'', ws1, theOpt, Group 1 lazyName, ws1, lit ''for'', ws1,
            Group 2 digits1, ws1, lit ''damage''], False)]"

text \<open>\<^verbatim>\<open>damagePatterns\<close> of \<^verbatim>\<open>applyPlayerDamage\<close>; the flag is
  \<^verbatim>\<open>pattern.source.startsWith('(\\d+)')\<close>.
  \<^verbatim>\<open>/([A-Za-z][A-Za-z ']*?)\s+takes?\s+(\d+)\s+(?:points?\s+of\s+)?damage/\<close>,
  \<^verbatim>\<open>/(\d+)\s+(?:points?\s+of\s+)?damage\s+to\s+([A-Za-z][A-Za-z ']*)/\<close>,
  \<^verbatim>\<open>/([A-Za-z][A-Za-z ']*?)\s+suffers?\s+(\d+)\s+(?:points?\s+of\s+)?damage/\<close>,
  \<^verbatim>\<open>/([A-Za-z][A-Za-z ']*?)\s+loses?\s+(\d+)\s+(?:hit\s+points?|hp)/\<close>.\<close>

definition playerDamagePatterns :: "(rx \<times> bool) list" where
  "playerDamagePatterns =
    [(seqs [Group 1 lazyName, ws1, optLast ''takes'', ws1, Group 2 digits1, ws1, pointsOf,
            lit ''damage''], False),
     (seqs [Group 1 digits1, ws1, pointsOf, lit ''damage'', ws1, lit ''to'', ws1,
            Group 2 greedyName], True),
     (seqs [Group 1 lazyName, ws1, optLast ''suffers'', ws1, Group 2 digits1, ws1, pointsOf,
            lit ''damage''], False),
     (seqs [Group 1 lazyName, ws1, optLast ''loses'', ws1, Group 2 digits1, ws1,
            alts [hitPoints, lit ''hp'']], False)]"

text \<open>\<^verbatim>\<open>healingPatterns\<close>:
  \<^verbatim>\<open>/([A-Za-z][A-Za-z ']*?)\s+heals?\s+(\d+)\s+(?:hit\s+points?|hp)/\<close>,
  \<^verbatim>\<open>/([A-Za-z][A-Za-z ']*?)\s+recovers?\s+(\d+)\s+(?:points?\s+of\s+)?(?:damage|health|hp)/\<close>,
  \<^verbatim>\<open>/([A-Za-z][A-Za-z ']*?)\s+gains?\s+(\d+)\s+(?:hit\s+points?|hp|health)/\<close>,
  \<^verbatim>\<open>/(\d+)\s+(?:hit\s+points?|hp|health)\s+(?:restored|healed)\s+to\s+([A-Za-z][A-Za-z ']*)/\<close>.\<close>

definition healingPatterns :: "(rx \<times> bool) list" where
  "healingPatterns =
    [(seqs [Group 1 lazyName, ws1, optLast ''heals'', ws1, Group 2 digits1, ws1,
            alts [hitPoints, lit ''hp'']], False),
     (seqs [Group 1 lazyName, ws1, optLast ''recovers'', ws1, Group 2 digits1, ws1, pointsOf,
            words [''damage'', ''health'', ''hp'']], False),
     (seqs [Group 1 lazyName, ws1, optLast ''gains'', ws1, Group 2 digits1, ws1,
            alts [hitPoints, lit ''hp'', lit ''health'']], False),
     (seqs [Group 1 digits1, ws1, alts [hitPoints, lit ''hp'', lit ''health''], ws1,
            words [''restored'', ''healed''], ws1, lit ''to'', ws1, Group 2 greedyName], True)]"

text \<open>\<^verbatim>\<open>gainItemPatterns\<close>:
  \<^verbatim>\<open>/([A-Za-z][A-Za-z ']*?)\s+(?:finds?|discovers?|picks?\s+up|obtains?)\s+(?:a|an|the)\s+([A-Za-z][A-Za-z '\-]*)/\<close>,
  \<^verbatim>\<open>/([A-Za-z][A-Za-z ']*?)\s+(?:receives?|gets?|gains?)\s+(?:a|an|the)\s+([A-Za-z][A-Za-z '\-]*)/\<close>,
  \<^verbatim>\<open>/(?:give|hand)\s+([A-Za-z][A-Za-z ']*?)\s+(?:a|an|the)\s+([A-Za-z][A-Za-z '\-]*)/\<close>,
  \<^verbatim>\<open>/([A-Za-z][A-Za-z ']*?)\s+(?:loots?|takes?)\s+(?:a|an|the)\s+([A-Za-z][A-Za-z '\-]*)/\<close>;
  \<^verbatim>\<open>loseItemPatterns\<close>:
  \<^verbatim>\<open>/([A-Za-z][A-Za-z ']*?)\s+(?:uses?|consumes?|drinks?)\s+(?:a|an|the|their)\s+([A-Za-z][A-Za-z '\-]*)/\<close>,
  \<^verbatim>\<open>/([A-Za-z][A-Za-z ']*?)\s+(?:drops?|loses?|discards?)\s+(?:a|an|the|their)\s+([A-Za-z][A-Za-z '\-]*)/\<close>;
  the filter \<^verbatim>\<open>/\b(room|door|way|path|area|place|time|chance)\b/i\<close> and the clean-up
  \<^verbatim>\<open>/[^a-z\s\-]/g\<close>.\<close>

definition article :: rx where
  "article = words [''a'', ''an'', ''the'']"

definition gainItemPatterns :: "rx list" where
  "gainItemPatterns =
    [seqs [Group 1 lazyName, ws1,
           alts [optLast ''finds'', optLast ''discovers'', seqs [optLast ''picks'', ws1, lit ''up''],
                 optLast ''obtains''],
           ws1, article, ws1, Group 2 itemName],
     seqs [Group 1 lazyName, ws1, alts [optLast ''receives'', optLast ''gets'', optLast ''gains''],
           ws1, article, ws1, Group 2 itemName],
     seqs [words [''give'', ''hand''], ws1, Group 1 lazyName, ws1, article, ws1,
           Group 2 itemName],
     seqs [Group 1 lazyName, ws1, alts [optLast ''loots'', optLast ''takes''], ws1, article, ws1,
           Group 2 itemName]]"

definition possessive :: rx where
  "possessive = words [''a'', ''an'', ''the'', ''their'']"

definition loseItemPatterns :: "rx list" where
  "loseItemPatterns =
    [seqs [Group 1 lazyName, ws1, alts [optLast ''uses'', optLast ''consumes'', optLast ''drinks''],
           ws1, possessive, ws1, Group 2 itemName],
     seqs [Group 1 lazyName, ws1, alts [optLast ''drops'', optLast ''loses'', optLast ''discards''],
           ws1, possessive, ws1, Group 2 itemName]]"

definition notAnItem :: rx where
  "notAnItem =
     seqs [WordB,
           Group 1 (words [''room'', ''door'', ''way'', ''path'', ''area'', ''place'', ''time'',
                           ''chance'']),
           WordB]"

definition notItemChar :: rx where
  "notItemChar = NAtom [CLower, CSpace, CChar CHR ''-'']"

section \<open>The effect resolver\<close>

text \<open>
  \<^verbatim>\<open>EffectResolver\<close> mutates the player map and the combat state it is given; here each
  method returns the new value.  \<^verbatim>\<open>text.matchAll(pattern)\<close> only reads the narration, so a
  loop over its matches is a \<open>foldl\<close> over \<open>matchAll\<close>.
\<close>

text \<open>\<^verbatim>\<open>getDefaultEnemyHp\<close>: \<^verbatim>\<open>hpMap[name] || 15\<close>.  The keys \<^verbatim>\<open>constructor\<close> and
  \<^verbatim>\<open>__proto__\<close> are not in the literal but are found on \<^verbatim>\<open>Object.prototype\<close>, and what is
  found there is an object, which is truthy.\<close>

definition hpMap :: "(string \<times> int) list" where
  "hpMap =
    [(''goblin'', 7), (''orc'', 15), (''skeleton'', 13), (''zombie'', 22), (''wolf'', 11),
     (''spider'', 4), (''bandit'', 11), (''guard'', 11), (''troll'', 84), (''ogre'', 59),
     (''dragon'', 200), (''lich'', 135), (''demon'', 85), (''devil'', 85), (''giant'', 138),
     (''minotaur'', 76), (''basilisk'', 52), (''harpy'', 38), (''cyclops'', 138),
     (''hydra'', 172)]"

definition inheritedKeys :: "string list" where
  "inheritedKeys = [''constructor'', ''__proto__'']"

definition getDefaultEnemyHp :: "string \<Rightarrow> jsval" where
  "getDefaultEnemyHp enemyName =
     (let name = toLowerCase enemyName
      in case map_of hpMap name of
           Some v \<Rightarrow> if v = 0 then Num 15 else Num v
         | None \<Rightarrow> if name \<in> set inheritedKeys then Obj else Num 15)"

definition hasCombatTrigger :: "string \<Rightarrow> bool" where
  "hasCombatTrigger narration = list_ex (\<lambda>pattern. rxTest True pattern narration) combatTriggers"

text \<open>The loops of \<^verbatim>\<open>detectCombatScenarios\<close> over the patterns and their matches (lines
  316 to 348).  \<open>enemyOfMatch\<close> is the body up to the clean-up of the name (lines 322 to
  339): the health is \<^verbatim>\<open>parseInt(match[2], 10)\<close> when group 2 took part, is not empty and
  does not parse to \<^verbatim>\<open>NaN\<close>, else the default of the trimmed name as matched, and the name
  is stripped of an article and capitalised.
  \<open>addEnemy\<close> is the test for duplicates (lines 341 to 346) on the pair of \<^verbatim>\<open>enemies\<close> and
  \<^verbatim>\<open>foundEnemies\<close>.  Group 1 takes part in every match of the three patterns.\<close>

definition capitalize :: "string \<Rightarrow> string" where
  "capitalize w = (case w of [] \<Rightarrow> [] | c # cs \<Rightarrow> upperChar c # cs)"

definition cleanEnemyName :: "string \<Rightarrow> string" where
  "cleanEnemyName enemyName =
     joinSpace (map capitalize (splitSpace (toLowerCase (replaceFirst True articlePrefix enemyName))))"

definition enemyOfMatch :: "rmatch_result \<Rightarrow> Enemy" where
  "enemyOfMatch m =
     (let enemyName = trim (case grp m 1 of Some g \<Rightarrow> g | None \<Rightarrow> []);
          stated = (case grp m 2 of
                      Some g \<Rightarrow> if g = [] then NaN else parseInt g
                    | None \<Rightarrow> NaN);
          enemyHp = (if stated = NaN then getDefaultEnemyHp enemyName else stated)
      in \<lparr>e_name = cleanEnemyName enemyName, e_hp = enemyHp\<rparr>)"

definition addEnemy :: "Enemy list \<times> string list \<Rightarrow> rmatch_result \<Rightarrow> Enemy list \<times> string list" where
  "addEnemy st m =
     (let e = enemyOfMatch m; enemyKey = toLowerCase (e_name e)
      in if enemyKey \<notin> set (snd st) \<and> length (e_name e) > 1
         then (fst st @ [e], snd st @ [enemyKey]) else st)"

definition findEnemies :: "string \<Rightarrow> Enemy list" where
  "findEnemies narration =
     fst (foldl (\<lambda>st pattern. foldl addEnemy st (matchAll True pattern narration))
                ([], []) enemyPatterns)"

definition detectCombatScenarios :: "string \<Rightarrow> player_map \<Rightarrow> CombatState \<Rightarrow> CombatState" where
  "detectCombatScenarios narration ps combat =
     (if active combat then combat
      else if \<not> hasCombatTrigger narration then combat
      else let es = findEnemies narration
           in if length es > 0
              then combat\<lparr>active := True, enemies := es,
                          turnOrder := map p_name (map_values ps) @ map e_name es,
                          currentTurnIndex := Num 0\<rparr>
              else combat)"

definition checkCombatEnd :: "CombatState \<Rightarrow> CombatState" where
  "checkCombatEnd combat =
     (if \<not> active combat then combat
      else if length (filter (\<lambda>e. js_positive (e_hp e)) (enemies combat)) = 0
           then combat\<lparr>active := False, enemies := [], turnOrder := [], currentTurnIndex := Num 0\<rparr>
           else combat)"

text \<open>\<^verbatim>\<open>findEnemyByName\<close>: the position of the enemy found (an exact match of the lower-case
  names first, then an enemy whose name contains the search name, then one whose name the
  search name contains).\<close>

definition findEnemyByName :: "Enemy list \<Rightarrow> string \<Rightarrow> nat option" where
  "findEnemyByName es searchName =
     (let cleanSearchName = trim (replaceFirst False searchArticlePrefix (toLowerCase searchName))
      in case findIndex (\<lambda>e. toLowerCase (e_name e) = cleanSearchName) es of
           Some k \<Rightarrow> Some k
         | None \<Rightarrow>
            (case findIndex (\<lambda>e. str_includes (toLowerCase (e_name e)) cleanSearchName) es of
               Some k \<Rightarrow> Some k
             | None \<Rightarrow> findIndex (\<lambda>e. str_includes cleanSearchName (toLowerCase (e_name e))) es))"

text \<open>The two groups of a damage or healing match, as (name, amount): \<^verbatim>\<open>match[k]?.trim()\<close>
  and \<^verbatim>\<open>parseInt(match[k], 10)\<close>.  \<^verbatim>\<open>Number.isFinite\<close> accepts the amounts \<open>Num d\<close> and
  refuses \<^verbatim>\<open>NaN\<close> and the infinities.  A player's \<^verbatim>\<open>hp\<close> is finite, so a difference or a
  sum that leaves the range of the doubles is cut to 0 by \<^verbatim>\<open>Math.max\<close> or to 20 by
  \<^verbatim>\<open>Math.min\<close>, as its rounded integer value is.

  \<open>hitEnemy\<close> is the end of the loop body of \<^verbatim>\<open>applyEnemyDamage\<close> (lines 451 to 460),
  \<open>hurtPlayer\<close> that of \<^verbatim>\<open>applyPlayerDamage\<close> (lines 508 to 515), \<open>healPlayer\<close> that of
  \<^verbatim>\<open>applyPlayerHealing\<close> (lines 548 to 556); \<open>gainItemStep\<close> and \<open>loseItemStep\<close> are the
  bodies of the two loops of \<^verbatim>\<open>applyInventoryChanges\<close> (lines 577 to 597 and 612 to
  628).\<close>

definition matchName :: "bool \<Rightarrow> rmatch_result \<Rightarrow> string option" where
  "matchName amountFirst m = map_option trim (grp m (if amountFirst then 2 else 1))"

definition matchAmount :: "bool \<Rightarrow> rmatch_result \<Rightarrow> jsval" where
  "matchAmount amountFirst m =
     (case grp m (if amountFirst then 1 else 2) of None \<Rightarrow> NaN | Some g \<Rightarrow> parseInt g)"

definition hitEnemy :: "CombatState \<Rightarrow> string option \<Rightarrow> jsval \<Rightarrow> CombatState" where
  "hitEnemy combat enemyName dmg =
     (case (enemyName, dmg) of
        (Some nm, Num d) \<Rightarrow>
          if nm \<noteq> [] \<and> d > 0
          then (case findEnemyByName (enemies combat) nm of
                  None \<Rightarrow> combat
                | Some k \<Rightarrow>
                    combat\<lparr>enemies := (enemies combat)
                      [k := (enemies combat ! k)\<lparr>e_hp := math_max0 (js_minus (e_hp (enemies combat ! k)) d)\<rparr>]\<rparr>)
          else combat
      | _ \<Rightarrow> combat)"

definition enemyDamageStep :: "bool \<Rightarrow> CombatState \<Rightarrow> rmatch_result \<Rightarrow> CombatState" where
  "enemyDamageStep amountFirst combat m =
     hitEnemy combat (matchName amountFirst m) (matchAmount amountFirst m)"

definition applyEnemyDamage :: "string \<Rightarrow> CombatState \<Rightarrow> CombatState" where
  "applyEnemyDamage narration combat =
     (if \<not> active combat \<or> length (enemies combat) = 0 then combat
      else foldl (\<lambda>c pattern. foldl (enemyDamageStep (snd pattern)) c
                                  (matchAll True (fst pattern) narration))
                 combat enemyDamagePatterns)"

definition hurtPlayer :: "player_map \<Rightarrow> string option \<Rightarrow> jsval \<Rightarrow> player_map" where
  "hurtPlayer ps nm dmg =
     (case dmg of
        Num d \<Rightarrow>
          if d > 0 then updatePlayer nm (\<lambda>p. p\<lparr>p_hp := max 0 (roundInt (p_hp p - d))\<rparr>) ps else ps
      | _ \<Rightarrow> ps)"

definition playerDamageStep :: "bool \<Rightarrow> player_map \<Rightarrow> rmatch_result \<Rightarrow> player_map" where
  "playerDamageStep amountFirst ps m =
     hurtPlayer ps (map_option toLowerCase (matchName amountFirst m)) (matchAmount amountFirst m)"

definition applyPlayerDamage :: "string \<Rightarrow> player_map \<Rightarrow> player_map" where
  "applyPlayerDamage narration ps =
     foldl (\<lambda>q pattern. foldl (playerDamageStep (snd pattern)) q
                               (matchAll True (fst pattern) narration))
           ps playerDamagePatterns"

definition healPlayer :: "player_map \<Rightarrow> string option \<Rightarrow> jsval \<Rightarrow> player_map" where
  "healPlayer ps nm heal =
     (case heal of
        Num h \<Rightarrow>
          if h > 0 then updatePlayer nm (\<lambda>p. p\<lparr>p_hp := min 20 (roundInt (p_hp p + h))\<rparr>) ps else ps
      | _ \<Rightarrow> ps)"

definition healingStep :: "bool \<Rightarrow> player_map \<Rightarrow> rmatch_result \<Rightarrow> player_map" where
  "healingStep amountFirst ps m =
     healPlayer ps (map_option toLowerCase (matchName amountFirst m)) (matchAmount amountFirst m)"

definition applyPlayerHealing :: "string \<Rightarrow> player_map \<Rightarrow> player_map" where
  "applyPlayerHealing narration ps =
     foldl (\<lambda>q pattern. foldl (healingStep (snd pattern)) q
                               (matchAll True (fst pattern) narration))
           ps healingPatterns"

definition cleanItemName :: "string \<Rightarrow> string" where
  "cleanItemName item = trim (replaceAll False notItemChar item)"

definition gainItemStep :: "player_map \<Rightarrow> rmatch_result \<Rightarrow> player_map" where
  "gainItemStep ps m =
     (let playerName = map_option (toLowerCase \<circ> trim) (grp m 1);
          item = (case grp m 2 of Some g \<Rightarrow> trim g | None \<Rightarrow> [])
      in if item = [] \<or> length item < 2 \<or> rxTest True notAnItem item then ps
         else updatePlayer playerName
                (\<lambda>p. if cleanItemName (toLowerCase item) \<in> set (inventory p) then p
                      else p\<lparr>inventory := inventory p @ [cleanItemName (toLowerCase item)]\<rparr>)
                ps)"

definition loseItemStep :: "player_map \<Rightarrow> rmatch_result \<Rightarrow> player_map" where
  "loseItemStep ps m =
     (let playerName = map_option (toLowerCase \<circ> trim) (grp m 1);
          item = (case grp m 2 of Some g \<Rightarrow> toLowerCase (trim g) | None \<Rightarrow> [])
      in if item \<noteq> [] \<and> playerName \<noteq> None \<and> playerName \<noteq> Some []
         then updatePlayer playerName
                (\<lambda>p. p\<lparr>inventory := removeFirst (\<lambda>it. str_includes it (cleanItemName item))
                                                  (inventory p)\<rparr>)
                ps
         else ps)"

definition applyInventoryChanges :: "string \<Rightarrow> player_map \<Rightarrow> player_map" where
  "applyInventoryChanges narration ps =
     (let gained = foldl (\<lambda>q pattern. foldl gainItemStep q (matchAll True pattern narration))
                         ps gainItemPatterns
      in foldl (\<lambda>q pattern. foldl loseItemStep q (matchAll True pattern narration))
               gained loseItemPatterns)"

text \<open>\<^verbatim>\<open>EffectResolver.apply\<close>: combat detection, enemy damage, player damage, healing,
  inventory, combat end, in this order.\<close>

definition EffectResolver_apply :: "string \<Rightarrow> player_map \<Rightarrow> CombatState \<Rightarrow> player_map \<times> CombatState" where
  "EffectResolver_apply dmText ps combat =
     (applyInventoryChanges dmText (applyPlayerHealing dmText (applyPlayerDamage dmText ps)),
      checkCombatEnd (applyEnemyDamage dmText (detectCombatScenarios dmText ps combat)))"

section \<open>The narration client\<close>

text \<open>
  \<^verbatim>\<open>DungeonMasterService\<close>.  The backend \<^verbatim>\<open>ai.run\<close> is an external service: \<open>ai k\<close> is what
  its invocation number \<open>k\<close> (from 0) does during one call of \<^verbatim>\<open>narrate\<close>, either a response
  (whose field \<^verbatim>\<open>response\<close> may be missing) or a rejection.  A rejection is an \<^verbatim>\<open>Error\<close>
  with its name and message, or any other value, given by its \<^verbatim>\<open>String(error)\<close>.  The
  waiting between attempts takes time and changes nothing else; it is left out.
\<close>

datatype ai_error = ErrorObject string string | Thrown string

datatype ai_outcome = Resolves "string option" | Rejects ai_error

record NarrationResult =
  n_text :: string
  n_thinking :: string
  degraded :: bool

definition FALLBACK_DM_TEXT :: string where
  "FALLBACK_DM_TEXT = ''Sorry, the AI service is unavailable. Please try again later.''"

text \<open>\<^verbatim>\<open>/timeout|timed out|network|503|504/i\<close> on \<^verbatim>\<open>`${error.name}: ${error.message}`\<close>.\<close>

definition retryablePattern :: rx where
  "retryablePattern = words [''timeout'', ''timed out'', ''network'', ''503'', ''504'']"

definition errorMessage :: "ai_error \<Rightarrow> string" where
  "errorMessage e = (case e of ErrorObject nm msg \<Rightarrow> nm @ '': '' @ msg | Thrown v \<Rightarrow> v)"

definition isRetryableError :: "ai_error \<Rightarrow> bool" where
  "isRetryableError e = rxTest True retryablePattern (errorMessage e)"

text \<open>\<^verbatim>\<open>extractThinking\<close>, with \<^verbatim>\<open>/<thinking>([\s\S]*?)<\/thinking>/i\<close> and the same
  expression with the flags \<^verbatim>\<open>gi\<close>.\<close>

definition thinkingBlock :: rx where
  "thinkingBlock =
     seqs [lit ''<thinking>'', Group 1 (LazyStar [CSpace, CNonSpace]), lit ''</thinking>'']"

definition extractThinking :: "string \<Rightarrow> string \<times> string" where
  "extractThinking rawText =
     (trim (replaceAll True thinkingBlock rawText),
      (case execFrom True thinkingBlock None rawText of
         Some m \<Rightarrow> (case grp m 1 of Some g \<Rightarrow> trim g | None \<Rightarrow> [])
       | None \<Rightarrow> []))"

text \<open>The two results of \<^verbatim>\<open>narrate\<close>: the fallback of line 193, and the narration made
  from a response (lines 173 and 174, with \<^verbatim>\<open>ai.response ?? "The DM is silent."\<close>).\<close>

definition fallbackNarration :: NarrationResult where
  "fallbackNarration = \<lparr>n_text = FALLBACK_DM_TEXT, n_thinking = [], degraded = True\<rparr>"

definition narrated :: "string option \<Rightarrow> NarrationResult" where
  "narrated response =
     (let tt = extractThinking (case response of Some r \<Rightarrow> r | None \<Rightarrow> ''The DM is silent.'')
      in \<lparr>n_text = fst tt, n_thinking = snd tt, degraded = False\<rparr>)"

text \<open>The loop of \<^verbatim>\<open>narrate\<close>, from attempt number \<open>attempt\<close>.  The second component of
  the result is the number of times the backend has been invoked.\<close>

function narrateFrom :: "(nat \<Rightarrow> ai_outcome) \<Rightarrow> nat \<Rightarrow> nat \<Rightarrow> NarrationResult \<times> nat" where
  "narrateFrom ai maxAttempts attempt =
     (if attempt < maxAttempts
      then (case ai attempt of
              Resolves response \<Rightarrow> (narrated response, attempt + 1)
            | Rejects e \<Rightarrow>
                if \<not> isRetryableError e \<or> attempt = maxAttempts - 1
                then (fallbackNarration, attempt + 1)
                else narrateFrom ai maxAttempts (attempt + 1))
      else (fallbackNarration, attempt))"
  by pat_completeness auto
termination
  by (relation "measure (\<lambda>(ai, maxAttempts, attempt). maxAttempts - attempt)") auto

declare narrateFrom.simps [simp del]

text \<open>The constructor: \<^verbatim>\<open>Math.max(1, options.maxAttempts ?? 2)\<close>.\<close>

definition serviceMaxAttempts :: "int option \<Rightarrow> nat" where
  "serviceMaxAttempts opt = nat (max 1 (case opt of None \<Rightarrow> 2 | Some n \<Rightarrow> n))"

definition narrate :: "(nat \<Rightarrow> ai_outcome) \<Rightarrow> nat \<Rightarrow> NarrationResult \<times> nat" where
  "narrate ai maxAttempts = narrateFrom ai maxAttempts 0"

section \<open>The session coordinator\<close>

text \<open>
  The state of a \<^verbatim>\<open>SessionCoordinator\<close>: its fields, and with them what it leaves in
  its collaborators, namely the snapshot stored under the key \<^verbatim>\<open>session\<close>, the calls made
  to the registry and the number of invocations of the narration backend.  Calls to the
  storage and to the registry succeed.  A request reads the clock once (\<open>now\<close>, in
  milliseconds).
\<close>

record SessionSnapshot =
  s_players :: player_map
  s_messages :: "Message list"
  s_combat :: CombatState
  s_lastActivity :: int
  s_sessionId :: "string option"

datatype registry_call = RegistryAdd string | RegistryRemove string

record Coordinator =
  players :: player_map
  messages :: "Message list"
  combat :: CombatState
  lastActivity :: int
  sessionId :: "string option"
  stored :: "SessionSnapshot option"
  registryCalls :: "registry_call list"
  aiCalls :: nat

record JoinPayload =
  j_sessionId :: string
  j_playerId :: string
  j_name :: string

record ActionPayload =
  a_sessionId :: string
  a_playerId :: string
  playerAction :: string

record ActionResult =
  result :: string
  r_thinking :: "string option"
  r_degraded :: "bool option"
  reset :: bool
  state_players :: "Player list"
  state_combat :: CombatState

datatype request =
    JoinRequest "JoinPayload option"
  | StateRequest
  | ActionRequest "ActionPayload option"
  | OtherRequest

datatype response =
    BadRequest string
  | NotFound
  | JoinOk "Player list" "Message list"
  | StateOk "Player list" "Message list" CombatState
  | ActionOk ActionResult

definition SESSION_IDLE_TIMEOUT_MS :: int where
  "SESSION_IDLE_TIMEOUT_MS = 1000 * 60 * 30"

text \<open>A coordinator created over an empty storage.\<close>

definition newCoordinator :: "int \<Rightarrow> Coordinator" where
  "newCoordinator now =
     \<lparr>players = [], messages = [], combat = defaultCombatState, lastActivity = now,
      sessionId = None, stored = None, registryCalls = [], aiCalls = 0\<rparr>"

text \<open>The private helpers.  \<open>orSessionId\<close> is \<^verbatim>\<open>this.sessionId = this.sessionId ?? sessionId\<close>,
  \<open>pushMessage\<close> is \<^verbatim>\<open>this.messages.push({actor, content, ts: Date.now()})\<close>, and
  \<open>registryCall\<close> records a call of \<^verbatim>\<open>this.registry.add\<close> or \<^verbatim>\<open>remove\<close>.\<close>

definition getPlayers :: "Coordinator \<Rightarrow> Player list" where
  "getPlayers s = map_values (players s)"

definition getRecentMessages :: "Coordinator \<Rightarrow> Message list" where
  "getRecentMessages s = drop (length (messages s) - 50) (messages s)"

definition touch :: "Coordinator \<Rightarrow> int \<Rightarrow> Coordinator" where
  "touch s now = s\<lparr>lastActivity := now\<rparr>"

definition resetState :: "Coordinator \<Rightarrow> int \<Rightarrow> Coordinator" where
  "resetState s now = touch (s\<lparr>players := [], messages := [], combat := defaultCombatState\<rparr>) now"

definition persist :: "Coordinator \<Rightarrow> Coordinator" where
  "persist s =
     s\<lparr>stored := Some \<lparr>s_players = players s, s_messages = messages s, s_combat = combat s,
                        s_lastActivity = lastActivity s, s_sessionId = sessionId s\<rparr>\<rparr>"

definition registryCall :: "Coordinator \<Rightarrow> registry_call \<Rightarrow> Coordinator" where
  "registryCall s c = s\<lparr>registryCalls := registryCalls s @ [c]\<rparr>"

definition orSessionId :: "Coordinator \<Rightarrow> string \<Rightarrow> Coordinator" where
  "orSessionId s sid = s\<lparr>sessionId := (case sessionId s of None \<Rightarrow> Some sid | Some x \<Rightarrow> Some x)\<rparr>"

definition pushMessage :: "Coordinator \<Rightarrow> string \<Rightarrow> string \<Rightarrow> int \<Rightarrow> Coordinator" where
  "pushMessage s who what now = s\<lparr>messages := messages s @ [\<lparr>actor = who, content = what, ts = now\<rparr>]\<rparr>"

text \<open>The combat controls: \<^verbatim>\<open>startCombat\<close>, \<^verbatim>\<open>nextTurn\<close>, \<^verbatim>\<open>getCurrentTurn\<close>,
  \<^verbatim>\<open>isPlayerTurn\<close>.  An index of an array is below \<open>2^32\<close>, so \<^verbatim>\<open>index + 1\<close> is exact.
  \<^verbatim>\<open>x % 0\<close> is \<^verbatim>\<open>NaN\<close>, an index outside the array reads
  \<^verbatim>\<open>undefined\<close>, and \<^verbatim>\<open>name || null\<close> is \<^verbatim>\<open>null\<close> for the empty name too.\<close>

definition startCombat :: "Enemy list \<Rightarrow> string list \<Rightarrow> CombatState" where
  "startCombat es order = \<lparr>active = True, turnOrder = order, currentTurnIndex = Num 0, enemies = es\<rparr>"

definition js_rem :: "int \<Rightarrow> int \<Rightarrow> jsval" where
  "js_rem a n = (if n = 0 then NaN else if a \<ge> 0 then Num (a mod \<bar>n\<bar>) else Num (- ((- a) mod \<bar>n\<bar>)))"

definition nextIndex :: "jsval \<Rightarrow> nat \<Rightarrow> jsval" where
  "nextIndex v n = (case v of Num k \<Rightarrow> js_rem (k + 1) (int n) | _ \<Rightarrow> NaN)"

definition nextTurn :: "CombatState \<Rightarrow> CombatState" where
  "nextTurn c =
     (if \<not> active c then c
      else c\<lparr>currentTurnIndex := nextIndex (currentTurnIndex c) (length (turnOrder c))\<rparr>)"

definition js_index :: "'a list \<Rightarrow> jsval \<Rightarrow> 'a option" where
  "js_index xs v =
     (case v of
        Num k \<Rightarrow> if 0 \<le> k \<and> k < int (length xs) then Some (xs ! nat k) else None
      | _ \<Rightarrow> None)"

definition getCurrentTurn :: "CombatState \<Rightarrow> string option" where
  "getCurrentTurn c =
     (if \<not> active c \<or> length (turnOrder c) = 0 then None
      else (case js_index (turnOrder c) (currentTurnIndex c) of
              Some nm \<Rightarrow> if nm = [] then None else Some nm
            | None \<Rightarrow> None))"

definition isPlayerTurn :: "Coordinator \<Rightarrow> string \<Rightarrow> bool" where
  "isPlayerTurn s playerId =
     (case map_of (players s) playerId of
        None \<Rightarrow> False
      | Some player \<Rightarrow> getCurrentTurn (combat s) = Some (p_name player))"

text \<open>\<^verbatim>\<open>/^(end|finish|close|stop)\s*(game|session)?$/i\<close> on the trimmed action.\<close>

definition endCommand :: rx where
  "endCommand =
     seqs [Bol, Group 1 (words [''end'', ''finish'', ''close'', ''stop'']), Star [CSpace],
           Opt (Group 2 (words [''game'', ''session''])), Eol]"

definition isEndCommand :: "string \<Rightarrow> bool" where
  "isEndCommand action = rxTest True endCommand (trim action)"

definition cleanupIfIdle :: "Coordinator \<Rightarrow> int \<Rightarrow> Coordinator" where
  "cleanupIfIdle s now =
     (case sessionId s of
        None \<Rightarrow> s
      | Some sid \<Rightarrow>
          if sid = [] then s
          else if length (players s) = 0 then s
          else if now - lastActivity s < SESSION_IDLE_TIMEOUT_MS then s
          else persist (resetState (registryCall s (RegistryRemove sid)) now))"

text \<open>\<^verbatim>\<open>handleJoin\<close>; \<open>addOrRename\<close> is its branch on \<^verbatim>\<open>this.players.has(playerId)\<close>
  (lines 746 to 757).  A payload \<open>None\<close> is a body that is not JSON or that the guard
  \<^verbatim>\<open>isJoinPayload\<close> refuses.\<close>

definition starterInventory :: "string list" where
  "starterInventory = [''basic sword'', ''leather armor'', ''health potion'']"

definition addOrRename :: "Coordinator \<Rightarrow> string \<Rightarrow> string \<Rightarrow> int \<Rightarrow> Coordinator" where
  "addOrRename s playerId name now =
     (case map_of (players s) playerId of
        None \<Rightarrow>
          pushMessage
            (s\<lparr>players := map_set (players s) playerId
                  \<lparr>p_id = playerId, p_name = name, p_hp = 20, inventory = starterInventory\<rparr>\<rparr>)
            ''DM'' (name @ '' enters the campaign with basic equipment.'') now
      | Some existing \<Rightarrow>
          if p_name existing \<noteq> name
          then (pushMessage s ''DM'' (p_name existing @ '' is now known as '' @ name @ ''.'') now)
                 \<lparr>players := map_set (players s) playerId (existing\<lparr>p_name := name\<rparr>)\<rparr>
          else s)"

definition handleJoin :: "Coordinator \<Rightarrow> JoinPayload option \<Rightarrow> int \<Rightarrow> Coordinator \<times> response" where
  "handleJoin s payload now =
     (case payload of
        None \<Rightarrow> (s, BadRequest ''Invalid join payload'')
      | Some p \<Rightarrow>
          (let s1 = orSessionId s (j_sessionId p);
               wasEmpty = (length (players s1) = 0);
               s2 = persist (touch (addOrRename s1 (j_playerId p) (j_name p) now) now);
               s3 = (if wasEmpty then registryCall s2 (RegistryAdd (j_sessionId p)) else s2)
           in (s3, JoinOk (getPlayers s3) (getRecentMessages s3))))"

definition handleState :: "Coordinator \<Rightarrow> int \<Rightarrow> Coordinator \<times> response" where
  "handleState s now =
     (let s1 = persist (touch s now)
      in (s1, StateOk (getPlayers s1) (getRecentMessages s1) (combat s1)))"

text \<open>\<^verbatim>\<open>handleAction\<close>.  \<open>endSession\<close> is the branch of the end command (lines 803 to
  815).  \<open>finishAction\<close> is the end of the function from the narration on (lines 824 to
  866): effects and turn advance for a narration that is not degraded (\<open>applyEffects\<close>,
  lines 833 to 841), the two messages, the snapshot, the response.  The coordinator uses a
  \<^verbatim>\<open>DungeonMasterService\<close> with the default options.\<close>

definition applyEffects :: "Coordinator \<Rightarrow> string \<Rightarrow> string \<Rightarrow> Coordinator" where
  "applyEffects s playerId dmText =
     (let pc = EffectResolver_apply dmText (players s) (combat s);
          s1 = s\<lparr>players := fst pc, combat := snd pc\<rparr>
      in if active (combat s1) \<and> isPlayerTurn s1 playerId
         then s1\<lparr>combat := nextTurn (combat s1)\<rparr> else s1)"

definition finishAction ::
  "Coordinator \<Rightarrow> Player \<Rightarrow> string \<Rightarrow> NarrationResult \<Rightarrow> int \<Rightarrow> Coordinator \<times> response" where
  "finishAction s player action narration now =
     (let s1 = (if \<not> degraded narration then applyEffects s (p_id player) (n_text narration) else s);
          s2 = pushMessage s1 (p_name player) action now;
          s3 = pushMessage s2 ''DM'' (n_text narration) now;
          s4 = persist (touch s3 now)
      in (s4, ActionOk \<lparr>result = n_text narration, r_thinking = Some (n_thinking narration),
                        r_degraded = Some (degraded narration), reset = False,
                        state_players = getPlayers s4, state_combat = combat s4\<rparr>))"

definition endSession :: "Coordinator \<Rightarrow> Player \<Rightarrow> ActionPayload \<Rightarrow> int \<Rightarrow> Coordinator \<times> response" where
  "endSession s player p now =
     (let dmText = ''The game has ended. Thank you for playing!'';
          s1 = pushMessage s (p_name player) (playerAction p) now;
          s2 = pushMessage s1 ''DM'' dmText now;
          s3 = persist (resetState (registryCall s2 (RegistryRemove (a_sessionId p))) now)
      in (s3, ActionOk \<lparr>result = dmText, r_thinking = None, r_degraded = None, reset = True,
                        state_players = [], state_combat = combat s3\<rparr>))"

definition handleAction ::
  "Coordinator \<Rightarrow> ActionPayload option \<Rightarrow> int \<Rightarrow> (nat \<Rightarrow> ai_outcome) \<Rightarrow> Coordinator \<times> response" where
  "handleAction s payload now ai =
     (case payload of
        None \<Rightarrow> (s, BadRequest ''Invalid action payload'')
      | Some p \<Rightarrow>
          (let s1 = orSessionId s (a_sessionId p)
           in case map_of (players s1) (a_playerId p) of
                None \<Rightarrow> (s1, BadRequest ''Player not joined.'')
              | Some player \<Rightarrow>
                  if isEndCommand (playerAction p) then endSession s1 player p now
                  else (let nc = narrate ai (serviceMaxAttempts None)
                        in finishAction (s1\<lparr>aiCalls := aiCalls s1 + snd nc\<rparr>) player
                             (playerAction p) (fst nc) now)))"

text \<open>\<^verbatim>\<open>fetch\<close>: the idle clean-up, then the handler of the request.\<close>

definition fetch ::
  "Coordinator \<Rightarrow> request \<Rightarrow> int \<Rightarrow> (nat \<Rightarrow> ai_outcome) \<Rightarrow> Coordinator \<times> response" where
  "fetch s req now ai =
     (let s0 = cleanupIfIdle s now
      in case req of
           JoinRequest payload \<Rightarrow> handleJoin s0 payload now
         | StateRequest \<Rightarrow> handleState s0 now
         | ActionRequest payload \<Rightarrow> handleAction s0 payload now ai
         | OtherRequest \<Rightarrow> (s0, NotFound))"

text \<open>
  A coordinator is created again over the storage it left when the platform evicts it:
  the constructor replays the stored snapshot.  \<open>reachable\<close> are the states a session gets
  into from a coordinator created over an empty storage by join, act and query-state
  requests (with any payload, at any time, with any behaviour of the narration backend)
  and by such re-creations.
\<close>

definition rehydrate :: "Coordinator \<Rightarrow> int \<Rightarrow> Coordinator" where
  "rehydrate s now =
     (case stored s of
        None \<Rightarrow> (newCoordinator now)\<lparr>registryCalls := registryCalls s, aiCalls := aiCalls s\<rparr>
      | Some snap \<Rightarrow>
          \<lparr>players = s_players snap, messages = s_messages snap, combat = s_combat snap,
           lastActivity = s_lastActivity snap, sessionId = s_sessionId snap, stored = stored s,
           registryCalls = registryCalls s, aiCalls = aiCalls s\<rparr>)"

inductive reachable :: "Coordinator \<Rightarrow> bool" where
  created: "reachable (newCoordinator now)"
| served: "reachable s \<Longrightarrow> reachable (fst (fetch s req now ai))"
| rehydrated: "reachable s \<Longrightarrow> reachable (rehydrate s now)"

section \<open>Predicates of the claims\<close>

text \<open>
  The combat-state invariant of the data model, the validity of the turn index, and the
  bounds on health.  \<open>sameTurns\<close> relates a combat state to a later one in which only the
  health of the enemies may differ.  \<open>idleExpired\<close> is the condition under which
  \<^verbatim>\<open>cleanupIfIdle\<close> tears the session down: none of its three early returns is taken.
\<close>

definition combatInvariant :: "CombatState \<Rightarrow> bool" where
  "combatInvariant c =
     (\<not> active c \<longrightarrow> turnOrder c = [] \<and> enemies c = [] \<and> currentTurnIndex c = Num 0)"

definition indexInRange :: "CombatState \<Rightarrow> bool" where
  "indexInRange c =
     (case currentTurnIndex c of
        Num k \<Rightarrow> 0 \<le> k \<and> k < int (length (turnOrder c))
      | _ \<Rightarrow> False)"

definition turnValid :: "CombatState \<Rightarrow> bool" where
  "turnValid c = (active c \<longrightarrow> turnOrder c \<noteq> [] \<and> indexInRange c)"

definition sameTurns :: "CombatState \<Rightarrow> CombatState \<Rightarrow> bool" where
  "sameTurns c c' = (active c' = active c \<and> turnOrder c' = turnOrder c
     \<and> currentTurnIndex c' = currentTurnIndex c \<and> map e_name (enemies c') = map e_name (enemies c))"

definition storedOk :: "(CombatState \<Rightarrow> bool) \<Rightarrow> Coordinator \<Rightarrow> bool" where
  "storedOk P s = (case stored s of None \<Rightarrow> True | Some snap \<Rightarrow> P (s_combat snap))"

definition storedStep :: "Coordinator \<Rightarrow> Coordinator \<Rightarrow> bool" where
  "storedStep s s' =
     (stored s' = stored s \<or> (\<exists>snap. stored s' = Some snap \<and> s_combat snap = combat s'))"

definition idleExpired :: "Coordinator \<Rightarrow> int \<Rightarrow> bool" where
  "idleExpired s now =
     (sessionId s \<noteq> None \<and> sessionId s \<noteq> Some [] \<and> players s \<noteq> []
      \<and> SESSION_IDLE_TIMEOUT_MS \<le> now - lastActivity s)"



definition hpBounded :: "player_map \<Rightarrow> bool" where
  "hpBounded ps = (\<forall>kp \<in> set ps. 0 \<le> p_hp (snd kp) \<and> p_hp (snd kp) \<le> 20)"

definition enemiesSound :: "CombatState \<Rightarrow> bool" where
  "enemiesSound c = (\<forall>e \<in> set (enemies c). \<exists>n. e_hp e = Num n \<and> 0 \<le> n \<and> n < 2 ^ 53)"

section \<open>Example sessions\<close>

text \<open>
  A session that the player \<^verbatim>\<open>p1\<close>, named Thia, has joined, and the payloads,
  backends and narrations at which the theorems below are instantiated.
\<close>

definition silentAi :: "nat \<Rightarrow> ai_outcome" where
  "silentAi k = Resolves None"

definition brokenAi :: "nat \<Rightarrow> ai_outcome" where
  "brokenAi k = Rejects (Thrown ''quota exceeded'')"

definition timeoutAi :: "nat \<Rightarrow> ai_outcome" where
  "timeoutAi k = Rejects (ErrorObject ''Error'' ''InferenceUpstreamError: 504 Gateway Time-out'')"

definition goblinAi :: "nat \<Rightarrow> ai_outcome" where
  "goblinAi k = Resolves (Some ''A goblin attacks.'')"

definition thia :: Player where
  "thia = \<lparr>p_id = ''p1'', p_name = ''Thia'', p_hp = 20, inventory = starterInventory\<rparr>"

definition joinThia :: JoinPayload where
  "joinThia = \<lparr>j_sessionId = ''demo'', j_playerId = ''p1'', j_name = ''Thia''\<rparr>"

definition demoSession :: Coordinator where
  "demoSession = fst (fetch (newCoordinator 0) (JoinRequest (Some joinThia)) 0 silentAi)"




definition strangerLooks :: ActionPayload where
  "strangerLooks = \<lparr>a_sessionId = ''demo'', a_playerId = ''p9'', playerAction = ''look around''\<rparr>"

definition thiaLooks :: ActionPayload where
  "thiaLooks = \<lparr>a_sessionId = ''demo'', a_playerId = ''p1'', playerAction = ''look around''\<rparr>"

definition thiaEnds :: ActionPayload where
  "thiaEnds = \<lparr>a_sessionId = ''demo'', a_playerId = ''p1'', playerAction = ''End Game''\<rparr>"

definition cannedDamage :: NarrationResult where
  "cannedDamage = \<lparr>n_text = ''Thia takes 5 damage.'', n_thinking = [], degraded = True\<rparr>"

definition battle :: Coordinator where
  "battle = fst (fetch demoSession (ActionRequest (Some thiaLooks)) 5 goblinAi)"

definition joinNameless :: JoinPayload where
  "joinNameless = \<lparr>j_sessionId = ''demo'', j_playerId = ''p0'', j_name = ''''\<rparr>"

definition namelessLooks :: ActionPayload where
  "namelessLooks = \<lparr>a_sessionId = ''demo'', a_playerId = ''p0'', playerAction = ''look around''\<rparr>"

definition namelessBattle :: Coordinator where
  "namelessBattle =
     fst (fetch (fst (fetch (newCoordinator 0) (JoinRequest (Some joinNameless)) 0 silentAi))
                (ActionRequest (Some namelessLooks)) 1 goblinAi)"

definition thiaBare :: Player where
  "thiaBare = \<lparr>p_id = ''p1'', p_name = ''Thia'', p_hp = 20, inventory = []\<rparr>"

definition goblinFight :: CombatState where
  "goblinFight = \<lparr>active = True, turnOrder = [], currentTurnIndex = Num 0,
                   enemies = [\<lparr>e_name = ''Goblin'', e_hp = Num 12\<rparr>]\<rparr>"

definition scenarioText :: string where
  "scenarioText = ''Thia takes 5 damage. The hero deals 7 damage to Goblin.''"



definition constructorText :: string where
  "constructorText = ''The constructor attacks a goblin.''"


lemma demoSession_players: "players demoSession = [(''p1'', thia)]"
  by (simp add: demoSession_def fetch_def cleanupIfIdle_def handleJoin_def newCoordinator_def orSessionId_def joinThia_def
      addOrRename_def pushMessage_def persist_def touch_def registryCall_def thia_def Let_def)

lemma demoSession_combat: "combat demoSession = defaultCombatState"
  by (simp add: demoSession_def fetch_def cleanupIfIdle_def handleJoin_def newCoordinator_def orSessionId_def joinThia_def
      addOrRename_def pushMessage_def persist_def touch_def registryCall_def Let_def)

lemma battle_combat:
  "combat battle = \<lparr>active = True, turnOrder = [''Thia'', ''Goblin''], currentTurnIndex = Num 1,
                     enemies = [\<lparr>e_name = ''Goblin'', e_hp = Num 7\<rparr>]\<rparr>"
  by code_simp

lemma namelessBattle_combat:
  "combat namelessBattle = \<lparr>active = True, turnOrder = ['''', ''Goblin''], currentTurnIndex = Num 0,
                     enemies = [\<lparr>e_name = ''Goblin'', e_hp = Num 7\<rparr>]\<rparr>"
  by code_simp

lemma reachable_battle: "reachable battle"
  unfolding battle_def demoSession_def by (intro reachable.intros)

lemma reachable_namelessBattle: "reachable namelessBattle"
  unfolding namelessBattle_def by (intro reachable.intros)

section \<open>Properties of the numbers\<close>

lemma bitLength_le: "m < 2 ^ k \<Longrightarrow> bitLength m \<le> k"
proof (induction k arbitrary: m)
  case 0
  then show ?case by (subst bitLength.simps) simp
next
  case (Suc k)
  show ?case
  proof (cases "m \<le> 0")
    case True
    then show ?thesis by (subst bitLength.simps) simp
  next
    case False
    have "m div 2 < 2 ^ k" using Suc.prems by simp
    from Suc.IH[OF this] False show ?thesis by (subst bitLength.simps) simp
  qed
qed

lemma bitLength_0: "bitLength 0 = 0"
  by (subst bitLength.simps) simp

lemma roundInt_exact: "\<bar>n\<bar> < 2 ^ 53 \<Longrightarrow> roundInt n = n"
  using bitLength_le[of "\<bar>n\<bar>" 53] by (simp add: roundInt_def Let_def)

lemma toDouble_exact: "\<bar>n\<bar> < 2 ^ 53 \<Longrightarrow> toDouble n = Num n"
proof -
  assume a: "\<bar>n\<bar> < 2 ^ 53"
  then have "\<bar>n\<bar> < 2 ^ 1024" by (rule less_trans) simp
  from bitLength_le[OF this] roundInt_exact[OF a] show ?thesis
    by (simp add: toDouble_def Let_def)
qed

lemma roundInt_cases: "roundInt n = n \<or> (\<exists>k\<ge>0. roundInt n = sgn n * k)"
proof -
  define e where "e = bitLength \<bar>n\<bar> - 53"
  define q where "q = \<bar>n\<bar> div 2 ^ e"
  have q: "0 \<le> q" by (simp add: q_def pos_imp_zdiv_nonneg_iff)
  define q' where "q' = (if 2 * (\<bar>n\<bar> mod 2 ^ e) > 2 ^ e \<or> (2 * (\<bar>n\<bar> mod 2 ^ e) = 2 ^ e \<and> odd q) then q + 1 else q)"
  have "0 \<le> q' * 2 ^ e" using q by (simp add: q'_def)
  moreover have "roundInt n = (if e = 0 then n else sgn n * (q' * 2 ^ e))"
    by (simp add: roundInt_def Let_def e_def q_def q'_def)
  ultimately show ?thesis by (cases "e = 0") auto
qed

lemma roundInt_nonneg: "0 \<le> n \<Longrightarrow> 0 \<le> roundInt n"
  using roundInt_cases[of n] by (auto simp: sgn_if)

lemma roundInt_nonpos: "n \<le> 0 \<Longrightarrow> roundInt n \<le> 0"
  using roundInt_cases[of n] by (auto simp: sgn_if)

lemma math_max0_nonpos: "n \<le> 0 \<Longrightarrow> math_max0 (toDouble n) = Num 0"
  using roundInt_nonpos[of n] roundInt_exact[of 0]
  by (cases "n = 0") (auto simp: toDouble_def Let_def bitLength_0)

lemma math_max0_small:
  assumes "0 \<le> h" and "h < 2 ^ 53" and "0 < d"
  shows "\<exists>m. math_max0 (toDouble (h - d)) = Num m \<and> 0 \<le> m \<and> m < 2 ^ 53"
proof (cases "h - d \<le> 0")
  case True
  then show ?thesis using math_max0_nonpos[of "h - d"] by simp
next
  case False
  then have "\<bar>h - d\<bar> < 2 ^ 53" using assms by simp
  from toDouble_exact[OF this] False assms show ?thesis by simp
qed

lemma hurt_bounds:
  assumes "0 \<le> h" and "h \<le> 20" and "0 < d"
  shows "0 \<le> max 0 (roundInt (h - d)) \<and> max 0 (roundInt (h - d)) \<le> 20"
proof (cases "h - d \<le> 0")
  case True
  then show ?thesis using roundInt_nonpos[of "h - d"] by simp
next
  case False
  then have "\<bar>h - d\<bar> < 2 ^ 53" using assms by simp
  from roundInt_exact[OF this] assms show ?thesis by simp
qed

lemma heal_bounds:
  assumes "0 \<le> h" and "0 < d"
  shows "0 \<le> min 20 (roundInt (h + d)) \<and> min 20 (roundInt (h + d)) \<le> 20"
  using roundInt_nonneg[of "h + d"] assms by simp

section \<open>Properties of the player map\<close>








section \<open>Properties of the effect resolver\<close>

lemma foldl_invariant:
  assumes "P a" and "\<And>b x. P b \<Longrightarrow> P (f b x)"
  shows "P (foldl f a xs)"
  using assms(1) by (induction xs arbitrary: a) (auto intro: assms(2))


lemma names_update_hp: "map e_name (es[k := (es ! k)\<lparr>e_hp := h\<rparr>]) = map e_name es"
proof (cases "k < length es")
  case True
  then show ?thesis by (simp add: map_update list_update_same_conv)
next
  case False
  then have "length es \<le> k" by simp
  then show ?thesis by (simp add: list_update_beyond)
qed

lemma hitEnemy_sameTurns: "sameTurns c b \<Longrightarrow> sameTurns c (hitEnemy b nm d)"
  by (auto simp: sameTurns_def hitEnemy_def names_update_hp split: option.splits jsval.splits)

lemma applyEnemyDamage_sameTurns: "sameTurns c (applyEnemyDamage t c)"
proof -
  have base: "sameTurns c c" by (simp add: sameTurns_def)
  have "sameTurns c (foldl (\<lambda>c pattern. foldl (enemyDamageStep (snd pattern)) c
                                  (matchAll True (fst pattern) t)) c enemyDamagePatterns)"
  proof (rule foldl_invariant[where P = "sameTurns c"])
    show "sameTurns c c" by (rule base)
  next
    fix b :: CombatState and x :: "rx \<times> bool"
    assume b: "sameTurns c b"
    show "sameTurns c (foldl (enemyDamageStep (snd x)) b (matchAll True (fst x) t))"
      by (rule foldl_invariant[where P = "sameTurns c"])
         (auto simp: b enemyDamageStep_def intro: hitEnemy_sameTurns)
  qed
  then show ?thesis using base by (simp add: applyEnemyDamage_def)
qed

lemma applyEnemyDamage_inactive: "\<not> active c \<Longrightarrow> applyEnemyDamage t c = c"
  by (simp add: applyEnemyDamage_def)

lemma cinv_default: "combatInvariant defaultCombatState"
  by (simp add: combatInvariant_def defaultCombatState_def)

lemma cinv_detect: "combatInvariant c \<Longrightarrow> combatInvariant (detectCombatScenarios t ps c)"
  by (simp add: combatInvariant_def detectCombatScenarios_def Let_def)

lemma cinv_damage: "combatInvariant c \<Longrightarrow> combatInvariant (applyEnemyDamage t c)"
  using applyEnemyDamage_sameTurns[of c t] applyEnemyDamage_inactive[of c t]
  by (cases "active c") (auto simp: combatInvariant_def sameTurns_def)

lemma cinv_checkCombatEnd: "combatInvariant c \<Longrightarrow> combatInvariant (checkCombatEnd c)"
  by (simp add: combatInvariant_def checkCombatEnd_def)

lemma cinv_nextTurn: "combatInvariant c \<Longrightarrow> combatInvariant (nextTurn c)"
  by (simp add: combatInvariant_def nextTurn_def)

lemma cinv_apply: "combatInvariant c \<Longrightarrow> combatInvariant (snd (EffectResolver_apply t ps c))"
  by (simp add: EffectResolver_apply_def cinv_detect cinv_damage cinv_checkCombatEnd)

lemma tv_default: "turnValid defaultCombatState"
  by (simp add: turnValid_def defaultCombatState_def)

lemma tv_detect: "turnValid c \<Longrightarrow> turnValid (detectCombatScenarios t ps c)"
  by (cases "findEnemies t")
     (auto simp: turnValid_def indexInRange_def detectCombatScenarios_def Let_def)

lemma tv_damage: "turnValid c \<Longrightarrow> turnValid (applyEnemyDamage t c)"
  using applyEnemyDamage_sameTurns[of c t]
  by (auto simp: turnValid_def indexInRange_def sameTurns_def split: jsval.splits)

lemma tv_checkCombatEnd: "turnValid c \<Longrightarrow> turnValid (checkCombatEnd c)"
  by (auto simp: turnValid_def indexInRange_def checkCombatEnd_def split: jsval.splits)

lemma nextIndex_in_range:
  assumes "0 \<le> k" and "k < int n"
  shows "nextIndex (Num k) n = Num ((k + 1) mod int n)"
  using assms by (simp add: nextIndex_def js_rem_def)

lemma tv_nextTurn: "turnValid c \<Longrightarrow> turnValid (nextTurn c)"
  by (auto simp: turnValid_def indexInRange_def nextTurn_def nextIndex_def js_rem_def
      split: jsval.splits)

lemma tv_apply: "turnValid c \<Longrightarrow> turnValid (snd (EffectResolver_apply t ps c))"
  by (simp add: EffectResolver_apply_def tv_detect tv_damage tv_checkCombatEnd)

lemma getCurrentTurn_active:
  assumes "active c" and "turnOrder c \<noteq> []" and "currentTurnIndex c = Num k"
    and "0 \<le> k" and "k < int (length (turnOrder c))"
  shows "getCurrentTurn c = (if turnOrder c ! nat k = [] then None else Some (turnOrder c ! nat k))"
  using assms by (simp add: getCurrentTurn_def js_index_def)












lemma mapFirst_set: "set (mapFirst P f xs) \<subseteq> set xs \<union> f ` set xs"
  by (induction xs) auto

lemma updatePlayer_bounded:
  assumes "hpBounded ps"
    and "\<And>p. 0 \<le> p_hp p \<and> p_hp p \<le> 20 \<Longrightarrow> 0 \<le> p_hp (f p) \<and> p_hp (f p) \<le> 20"
  shows "hpBounded (updatePlayer nm f ps)"
proof -
  have "0 \<le> p_hp (snd kp) \<and> p_hp (snd kp) \<le> 20" if "kp \<in> set (updatePlayer nm f ps)" for kp
  proof -
    from that mapFirst_set[of "namedPlayer nm" "\<lambda>kp. (fst kp, f (snd kp))" ps]
    have "kp \<in> set ps \<or> (\<exists>q \<in> set ps. kp = (fst q, f (snd q)))"
      by (auto simp: updatePlayer_def)
    then show ?thesis using assms by (auto simp: hpBounded_def)
  qed
  then show ?thesis by (simp add: hpBounded_def)
qed

lemma hurtPlayer_bounded: "hpBounded ps \<Longrightarrow> hpBounded (hurtPlayer ps nm dmg)"
proof (cases dmg)
  case (Num d)
  assume a: "hpBounded ps"
  show ?thesis
  proof (cases "d > 0")
    case True
    have "hpBounded (updatePlayer nm (\<lambda>p. p\<lparr>p_hp := max 0 (roundInt (p_hp p - d))\<rparr>) ps)"
      using a by (rule updatePlayer_bounded) (use hurt_bounds[OF _ _ True] in simp)
    then show ?thesis using True by (simp add: hurtPlayer_def Num)
  next
    case False
    then show ?thesis using a by (simp add: hurtPlayer_def Num)
  qed
qed (simp_all add: hurtPlayer_def)

lemma healPlayer_bounded: "hpBounded ps \<Longrightarrow> hpBounded (healPlayer ps nm heal)"
proof (cases heal)
  case (Num h)
  assume a: "hpBounded ps"
  show ?thesis
  proof (cases "h > 0")
    case True
    have "hpBounded (updatePlayer nm (\<lambda>p. p\<lparr>p_hp := min 20 (roundInt (p_hp p + h))\<rparr>) ps)"
      using a by (rule updatePlayer_bounded) (use heal_bounds[OF _ True] in simp)
    then show ?thesis using True by (simp add: healPlayer_def Num)
  next
    case False
    then show ?thesis using a by (simp add: healPlayer_def Num)
  qed
qed (simp_all add: healPlayer_def)

lemma gainItemStep_bounded: "hpBounded ps \<Longrightarrow> hpBounded (gainItemStep ps m)"
  by (auto simp: gainItemStep_def Let_def intro!: updatePlayer_bounded)

lemma loseItemStep_bounded: "hpBounded ps \<Longrightarrow> hpBounded (loseItemStep ps m)"
  by (auto simp: loseItemStep_def Let_def intro!: updatePlayer_bounded)

lemma applyPlayerDamage_bounded: "hpBounded ps \<Longrightarrow> hpBounded (applyPlayerDamage t ps)"
  unfolding applyPlayerDamage_def
  by (rule foldl_invariant[where P = hpBounded], assumption,
      rule foldl_invariant[where P = hpBounded])
     (auto simp: playerDamageStep_def intro: hurtPlayer_bounded)

lemma applyPlayerHealing_bounded: "hpBounded ps \<Longrightarrow> hpBounded (applyPlayerHealing t ps)"
  unfolding applyPlayerHealing_def
  by (rule foldl_invariant[where P = hpBounded], assumption,
      rule foldl_invariant[where P = hpBounded])
     (auto simp: healingStep_def intro: healPlayer_bounded)

lemma applyInventoryChanges_bounded: "hpBounded ps \<Longrightarrow> hpBounded (applyInventoryChanges t ps)"
proof -
  assume a: "hpBounded ps"
  have g: "hpBounded (foldl (\<lambda>q pattern. foldl gainItemStep q (matchAll True pattern t)) ps gainItemPatterns)"
    by (rule foldl_invariant[where P = hpBounded], rule a,
        rule foldl_invariant[where P = hpBounded])
       (auto intro: gainItemStep_bounded)
  show ?thesis
    unfolding applyInventoryChanges_def Let_def
    by (rule foldl_invariant[where P = hpBounded], rule g,
        rule foldl_invariant[where P = hpBounded])
       (auto intro: loseItemStep_bounded)
qed

lemma hitEnemy_sound: "enemiesSound c \<Longrightarrow> enemiesSound (hitEnemy c nm d)"
proof -
  assume a: "enemiesSound c"
  have "\<exists>m. e_hp x = Num m \<and> 0 \<le> m \<and> m < 2 ^ 53"
    if "x \<in> set ((enemies c)[k := (enemies c ! k)\<lparr>e_hp := math_max0 (js_minus (e_hp (enemies c ! k)) n)\<rparr>])"
      and "n > 0" for x k n
  proof (cases "k < length (enemies c)")
    case True
    then have "enemies c ! k \<in> set (enemies c)" by simp
    then obtain h where h: "e_hp (enemies c ! k) = Num h" "0 \<le> h" "h < 2 ^ 53"
      using a unfolding enemiesSound_def by blast
    from that have "x \<in> set (enemies c) \<or> x = (enemies c ! k)\<lparr>e_hp := math_max0 (js_minus (e_hp (enemies c ! k)) n)\<rparr>"
      using set_update_subset_insert[of "enemies c" k] by auto
    then show ?thesis
    proof
      assume "x \<in> set (enemies c)"
      then show ?thesis using a by (simp add: enemiesSound_def)
    next
      assume "x = (enemies c ! k)\<lparr>e_hp := math_max0 (js_minus (e_hp (enemies c ! k)) n)\<rparr>"
      then show ?thesis using math_max0_small[OF h(2) h(3) that(2)] by (simp add: h(1))
    qed
  next
    case False
    with that a show ?thesis by (simp add: enemiesSound_def list_update_beyond)
  qed
  then show ?thesis
    using a by (auto simp: hitEnemy_def enemiesSound_def split: option.splits jsval.splits)
qed

lemma applyEnemyDamage_sound: "enemiesSound c \<Longrightarrow> enemiesSound (applyEnemyDamage t c)"
proof -
  assume a: "enemiesSound c"
  have "enemiesSound (foldl (\<lambda>c pattern. foldl (enemyDamageStep (snd pattern)) c
                                  (matchAll True (fst pattern) t)) c enemyDamagePatterns)"
    by (rule foldl_invariant[where P = enemiesSound], rule a,
        rule foldl_invariant[where P = enemiesSound])
       (auto simp: enemyDamageStep_def intro: hitEnemy_sound)
  then show ?thesis using a by (simp add: applyEnemyDamage_def)
qed

lemma checkCombatEnd_sound: "enemiesSound c \<Longrightarrow> enemiesSound (checkCombatEnd c)"
  by (simp add: enemiesSound_def checkCombatEnd_def)

lemma apply_health_bounds:
  "(hpBounded ps \<longrightarrow> hpBounded (fst (EffectResolver_apply t ps c)))
   \<and> (active c \<and> enemiesSound c \<longrightarrow> enemiesSound (snd (EffectResolver_apply t ps c)))"
  by (simp add: EffectResolver_apply_def applyPlayerDamage_bounded applyPlayerHealing_bounded
      applyInventoryChanges_bounded detectCombatScenarios_def applyEnemyDamage_sound
      checkCombatEnd_sound)

section \<open>Properties of the coordinator\<close>

lemma cleanupIfIdle_kept: "\<not> idleExpired s now \<Longrightarrow> cleanupIfIdle s now = s"
  by (auto simp: idleExpired_def cleanupIfIdle_def split: option.splits)

lemma cleanupIfIdle_expired:
  "idleExpired s now \<Longrightarrow>
     \<exists>sid. sessionId s = Some sid
       \<and> cleanupIfIdle s now = persist (resetState (registryCall s (RegistryRemove sid)) now)"
  by (auto simp: idleExpired_def cleanupIfIdle_def split: option.splits)

lemma handleAction_end_command:
  assumes "map_of (players s) (a_playerId p) = Some player"
    and "isEndCommand (playerAction p)"
  shows "(\<exists>r. snd (handleAction s (Some p) now ai) = ActionOk r
            \<and> reset r \<and> state_players r = [] \<and> \<not> active (state_combat r)
            \<and> enemies (state_combat r) = [] \<and> turnOrder (state_combat r) = []
            \<and> currentTurnIndex (state_combat r) = Num 0)
       \<and> players (fst (handleAction s (Some p) now ai)) = []
       \<and> messages (fst (handleAction s (Some p) now ai)) = []
       \<and> combat (fst (handleAction s (Some p) now ai)) = defaultCombatState
       \<and> stored (fst (handleAction s (Some p) now ai)) =
           Some \<lparr>s_players = [], s_messages = [], s_combat = defaultCombatState,
                 s_lastActivity = now,
                 s_sessionId = sessionId (fst (handleAction s (Some p) now ai))\<rparr>
       \<and> registryCalls (fst (handleAction s (Some p) now ai)) =
           registryCalls s @ [RegistryRemove (a_sessionId p)]
       \<and> aiCalls (fst (handleAction s (Some p) now ai)) = aiCalls s"
  using assms
  by (simp add: handleAction_def orSessionId_def endSession_def Let_def persist_def resetState_def
      touch_def registryCall_def pushMessage_def defaultCombatState_def)

lemma handleAction_unjoined:
  assumes "map_of (players s) (a_playerId p) = None"
  shows "handleAction s (Some p) now ai = (orSessionId s (a_sessionId p), BadRequest ''Player not joined.'')"
  using assms by (simp add: handleAction_def orSessionId_def)




lemma combat_addOrRename: "combat (addOrRename s k nm now) = combat s"
  by (simp add: addOrRename_def pushMessage_def split: option.splits)

lemma combat_handleJoin: "combat (fst (handleJoin s payload now)) = combat s"
  by (simp add: handleJoin_def Let_def persist_def touch_def registryCall_def orSessionId_def
      combat_addOrRename split: option.splits)

lemma combat_handleState: "combat (fst (handleState s now)) = combat s"
  by (simp add: handleState_def Let_def persist_def touch_def)

lemma combat_applyEffects:
  "combat (applyEffects s k t) = snd (EffectResolver_apply t (players s) (combat s))
   \<or> combat (applyEffects s k t) = nextTurn (snd (EffectResolver_apply t (players s) (combat s)))"
  by (simp add: applyEffects_def Let_def)

lemma combat_finishAction:
  "combat (fst (finishAction s pl a n now)) = (if degraded n then combat s else combat (applyEffects s (p_id pl) (n_text n)))"
  by (simp add: finishAction_def Let_def persist_def touch_def pushMessage_def)

lemma combat_endSession: "combat (fst (endSession s pl p now)) = defaultCombatState"
  by (simp add: endSession_def Let_def persist_def touch_def resetState_def registryCall_def pushMessage_def)

lemma combat_handleAction_cases:
  "combat (fst (handleAction s payload now ai)) = combat s
   \<or> combat (fst (handleAction s payload now ai)) = defaultCombatState
   \<or> (\<exists>t. combat (fst (handleAction s payload now ai)) = snd (EffectResolver_apply t (players s) (combat s)))
   \<or> (\<exists>t. combat (fst (handleAction s payload now ai)) = nextTurn (snd (EffectResolver_apply t (players s) (combat s))))"
proof (cases payload)
  case None
  then show ?thesis by (simp add: handleAction_def)
next
  case (Some p)
  show ?thesis
  proof (cases "map_of (players s) (a_playerId p)")
    case None
    with Some show ?thesis by (simp add: handleAction_def orSessionId_def)
  next
    case (Some pl)
    note pl = this
    show ?thesis
    proof (cases "isEndCommand (playerAction p)")
      case True
      with \<open>payload = Some p\<close> pl show ?thesis
        by (simp add: handleAction_def orSessionId_def combat_endSession)
    next
      case False
      define n where "n = fst (narrate ai (serviceMaxAttempts None))"
      define s1 where "s1 = (orSessionId s (a_sessionId p))\<lparr>aiCalls := aiCalls (orSessionId s (a_sessionId p)) + snd (narrate ai (serviceMaxAttempts None))\<rparr>"
      have ps: "players s1 = players s" "combat s1 = combat s"
        by (simp_all add: s1_def orSessionId_def)
      have eq: "combat (fst (handleAction s payload now ai)) = combat (fst (finishAction s1 pl (playerAction p) n now))"
        using False \<open>payload = Some p\<close> pl
        by (simp add: handleAction_def Let_def orSessionId_def s1_def n_def)
      show ?thesis
        using combat_applyEffects[of s1 "p_id pl" "n_text n"]
        unfolding eq combat_finishAction ps by auto
    qed
  qed
qed

lemma cinv_handleAction:
  "combatInvariant (combat s) \<Longrightarrow> combatInvariant (combat (fst (handleAction s payload now ai)))"
  using combat_handleAction_cases[of s payload now ai]
  by (auto simp: cinv_default cinv_apply cinv_nextTurn)

lemma combat_cleanupIfIdle:
  "combat (cleanupIfIdle s now) = combat s \<or> combat (cleanupIfIdle s now) = defaultCombatState"
  by (simp add: cleanupIfIdle_def persist_def resetState_def touch_def registryCall_def split: option.splits)

lemma cinv_cleanup: "combatInvariant (combat s) \<Longrightarrow> combatInvariant (combat (cleanupIfIdle s now))"
  using combat_cleanupIfIdle[of s now] by (auto simp: cinv_default)

lemma cinv_fetch:
  "combatInvariant (combat s) \<Longrightarrow> combatInvariant (combat (fst (fetch s req now ai)))"
  by (cases req) (simp_all add: fetch_def Let_def combat_handleJoin combat_handleState cinv_handleAction cinv_cleanup)

lemma tv_handleAction:
  "turnValid (combat s) \<Longrightarrow> turnValid (combat (fst (handleAction s payload now ai)))"
  using combat_handleAction_cases[of s payload now ai]
  by (auto simp: tv_default tv_apply tv_nextTurn)

lemma tv_fetch:
  "turnValid (combat s) \<Longrightarrow> turnValid (combat (fst (fetch s req now ai)))"
proof -
  assume a: "turnValid (combat s)"
  have "turnValid (combat (cleanupIfIdle s now))"
    using combat_cleanupIfIdle[of s now] a by (auto simp: tv_default)
  then show ?thesis
    by (cases req) (simp_all add: fetch_def Let_def combat_handleJoin combat_handleState tv_handleAction)
qed

lemma storedOk_step: "storedStep s s' \<Longrightarrow> P (combat s') \<Longrightarrow> storedOk P s \<Longrightarrow> storedOk P s'"
  by (auto simp: storedStep_def storedOk_def)

lemma storedStep_handleJoin: "storedStep s (fst (handleJoin s payload now))"
  by (simp add: storedStep_def handleJoin_def Let_def persist_def touch_def registryCall_def
      split: option.splits)

lemma storedStep_handleState: "storedStep s (fst (handleState s now))"
  by (simp add: storedStep_def handleState_def Let_def persist_def touch_def)

lemma storedStep_handleAction: "storedStep s (fst (handleAction s payload now ai))"
  by (simp add: storedStep_def handleAction_def Let_def orSessionId_def endSession_def
      finishAction_def persist_def touch_def split: option.splits)

lemma storedStep_cleanup: "storedStep s (cleanupIfIdle s now)"
  by (simp add: storedStep_def cleanupIfIdle_def persist_def split: option.splits)

lemma invariant_fetch:
  assumes d: "P defaultCombatState"
    and f: "\<And>s req now ai. P (combat s) \<Longrightarrow> P (combat (fst (fetch s req now ai)))"
    and c: "P (combat s)" and o: "storedOk P s"
  shows "storedOk P (fst (fetch s req now ai))"
proof -
  have c0: "P (combat (cleanupIfIdle s now))"
    using combat_cleanupIfIdle[of s now] c d by auto
  have o0: "storedOk P (cleanupIfIdle s now)"
    using storedStep_cleanup c0 o by (rule storedOk_step)
  have c1: "P (combat (fst (fetch s req now ai)))" using c by (rule f)
  show ?thesis
  proof (cases req)
    case (JoinRequest payload)
    have "storedStep (cleanupIfIdle s now) (fst (fetch s req now ai))"
      by (simp add: fetch_def JoinRequest storedStep_handleJoin)
    then show ?thesis using c1 o0 by (rule storedOk_step)
  next
    case StateRequest
    have "storedStep (cleanupIfIdle s now) (fst (fetch s req now ai))"
      by (simp add: fetch_def StateRequest storedStep_handleState)
    then show ?thesis using c1 o0 by (rule storedOk_step)
  next
    case (ActionRequest payload)
    have "storedStep (cleanupIfIdle s now) (fst (fetch s req now ai))"
      by (simp add: fetch_def ActionRequest storedStep_handleAction)
    then show ?thesis using c1 o0 by (rule storedOk_step)
  next
    case OtherRequest
    then show ?thesis using o0 by (simp add: fetch_def)
  qed
qed

lemma reachable_invariant:
  assumes d: "P defaultCombatState"
    and f: "\<And>s req now ai. P (combat s) \<Longrightarrow> P (combat (fst (fetch s req now ai)))"
  shows "reachable s \<Longrightarrow> P (combat s) \<and> storedOk P s"
proof (induction s rule: reachable.induct)
  case (created now)
  then show ?case by (simp add: newCoordinator_def d storedOk_def)
next
  case (served s req now ai)
  then show ?case using invariant_fetch[OF d f, of s req now ai] f by simp
next
  case (rehydrated s now)
  then show ?case
    by (auto simp: rehydrate_def storedOk_def newCoordinator_def d split: option.splits)
qed

lemma reachable_turnValid: "reachable s \<Longrightarrow> turnValid (combat s)"
  using reachable_invariant[of turnValid s, OF tv_default tv_fetch] by simp

lemma reachable_combatInvariant: "reachable s \<Longrightarrow> combatInvariant (combat s)"
  using reachable_invariant[of combatInvariant s, OF cinv_default cinv_fetch] by simp

section \<open>Evaluation of the resolver on the example narrations\<close>

lemma scenario_enemy_matches:
  "map (\<lambda>pattern. map (\<lambda>m. (matchName (snd pattern) m, matchAmount (snd pattern) m))
                      (matchAll True (fst pattern) scenarioText)) enemyDamagePatterns
   = [[(Some ''Goblin'', Num 7)], [(Some ''Thia'', Num 5)], [(Some ''Goblin'', Num 7)], [], []]"
  by code_simp

lemma scenario_enemy_damage:
  "applyEnemyDamage scenarioText goblinFight =
     goblinFight\<lparr>enemies := [\<lparr>e_name = ''Goblin'', e_hp = Num 0\<rparr>]\<rparr>"
  by code_simp

lemma scenario_player_damage:
  "applyPlayerDamage scenarioText [(''p1'', thiaBare)] = [(''p1'', thiaBare\<lparr>p_hp := 15\<rparr>)]"
  by code_simp

lemma scenario_healing:
  "applyPlayerHealing scenarioText [(''p1'', thiaBare\<lparr>p_hp := 15\<rparr>)] = [(''p1'', thiaBare\<lparr>p_hp := 15\<rparr>)]"
  by code_simp

lemma scenario_inventory:
  "applyInventoryChanges scenarioText [(''p1'', thiaBare\<lparr>p_hp := 15\<rparr>)] = [(''p1'', thiaBare\<lparr>p_hp := 15\<rparr>)]"
  by code_simp






lemma constructor_trigger: "hasCombatTrigger constructorText"
  by code_simp

lemma constructor_enemies:
  "findEnemies constructorText = [\<lparr>e_name = ''Goblin'', e_hp = Num 7\<rparr>, \<lparr>e_name = ''Constructor'', e_hp = Obj\<rparr>]"
  by code_simp

lemma constructor_damage:
  "applyEnemyDamage constructorText
     \<lparr>active = True, turnOrder = [''Thia'', ''Goblin'', ''Constructor''], currentTurnIndex = Num 0,
      enemies = [\<lparr>e_name = ''Goblin'', e_hp = Num 7\<rparr>, \<lparr>e_name = ''Constructor'', e_hp = Obj\<rparr>]\<rparr>
   = \<lparr>active = True, turnOrder = [''Thia'', ''Goblin'', ''Constructor''], currentTurnIndex = Num 0,
      enemies = [\<lparr>e_name = ''Goblin'', e_hp = Num 7\<rparr>, \<lparr>e_name = ''Constructor'', e_hp = Obj\<rparr>]\<rparr>"
  by code_simp

lemma constructor_players:
  "applyInventoryChanges constructorText (applyPlayerHealing constructorText
     (applyPlayerDamage constructorText [(''p1'', thia)])) = [(''p1'', thia)]"
  by code_simp




section \<open>The claims\<close>

text \<open>
  C1.  The scenario: the player Thia at 20 health, an active combat whose only enemy is
  Goblin at 12 health, and the narration
  \<^verbatim>\<open>Thia takes 5 damage. The hero deals 7 damage to Goblin.\<close>  The claim is that effect
  resolution leaves Thia at 15 and Goblin at 5.  Thia does end at 15.  Goblin does not end
  at 5: the phrase \<^verbatim>\<open>deals 7 damage to Goblin\<close> matches the first enemy-damage pattern and
  its tail \<^verbatim>\<open>7 damage to Goblin\<close> matches the third one (\<open>scenario_enemy_matches\<close>), so
  the 7 points are taken twice, Goblin goes from 12 to 5 to 0 (\<open>scenario_enemy_damage\<close>),
  and \<^verbatim>\<open>checkCombatEnd\<close> then ends the combat and empties the enemy list.  The theorem is
  the result of \<^verbatim>\<open>EffectResolver.apply\<close> on the scenario.
\<close>

theorem C1_scenario_goblin_hit_twice:
  "EffectResolver_apply scenarioText [(''p1'', thiaBare)] goblinFight =
     ([(''p1'', \<lparr>p_id = ''p1'', p_name = ''Thia'', p_hp = 15, inventory = []\<rparr>)],
      \<lparr>active = False, turnOrder = [], currentTurnIndex = Num 0, enemies = []\<rparr>)"
  by (simp add: EffectResolver_apply_def scenario_enemy_damage scenario_player_damage
      scenario_healing scenario_inventory)
     (simp add: detectCombatScenarios_def goblinFight_def scenario_enemy_damage[unfolded goblinFight_def]
      checkCombatEnd_def thiaBare_def)

text \<open>
  C2.  The claim: after effect resolution every player's health is an integer between 0
  and 20 and every enemy's health is an integer that is at least 0, when this held
  before.  It holds for the players, and for the enemies of a combat that was already
  active (\<open>apply_health_bounds\<close>).  It fails for an enemy that combat detection creates
  under a name that the table of default health inherits from \<^verbatim>\<open>Object.prototype\<close>: on
  the narration \<^verbatim>\<open>The constructor attacks a goblin.\<close> the resolver starts a combat in
  which the enemy Constructor has the health \<^verbatim>\<open>hpMap['constructor']\<close>, the function
  \<^verbatim>\<open>Object\<close>, which is not a number.  The theorem is the result of
  \<^verbatim>\<open>EffectResolver.apply\<close> on that narration.
\<close>

theorem C2_constructor_enemy:
  "EffectResolver_apply constructorText [(''p1'', thia)] defaultCombatState =
     ([(''p1'', thia)],
      \<lparr>active = True, turnOrder = [''Thia'', ''Goblin'', ''Constructor''], currentTurnIndex = Num 0,
       enemies = [\<lparr>e_name = ''Goblin'', e_hp = Num 7\<rparr>, \<lparr>e_name = ''Constructor'', e_hp = Obj\<rparr>]\<rparr>)"
proof -
  have d: "detectCombatScenarios constructorText [(''p1'', thia)] defaultCombatState =
     \<lparr>active = True, turnOrder = [''Thia'', ''Goblin'', ''Constructor''], currentTurnIndex = Num 0,
      enemies = [\<lparr>e_name = ''Goblin'', e_hp = Num 7\<rparr>, \<lparr>e_name = ''Constructor'', e_hp = Obj\<rparr>]\<rparr>"
    by (simp add: detectCombatScenarios_def constructor_trigger constructor_enemies
        defaultCombatState_def map_values_def thia_def)
  show ?thesis
    by (simp add: EffectResolver_apply_def d constructor_damage constructor_players
        checkCombatEnd_def)
qed

text \<open>
  C3.  When the narration of an act operation is degraded, the player map (health and
  inventory of every player) and the combat state (with its enemy list) are the same after
  the operation as before it.  The first part is about the end of \<^verbatim>\<open>handleAction\<close> for any
  degraded narration, whatever its text says; the second is \<^verbatim>\<open>handleAction\<close> itself, for a
  joined player, an action that is not the end command and a backend that makes
  \<^verbatim>\<open>narrate\<close> fall back.
\<close>

theorem C3_degraded_narration_frame:
  "(degraded narration \<longrightarrow>
      players (fst (finishAction s player action narration now)) = players s
    \<and> combat (fst (finishAction s player action narration now)) = combat s)
   \<and> (map_of (players s) (a_playerId p) = Some player \<and> \<not> isEndCommand (playerAction p)
      \<and> degraded (fst (narrate ai (serviceMaxAttempts None))) \<longrightarrow>
      players (fst (handleAction s (Some p) now ai)) = players s
    \<and> combat (fst (handleAction s (Some p) now ai)) = combat s)"
  by (simp add: handleAction_def finishAction_def orSessionId_def Let_def persist_def touch_def
      pushMessage_def)

text \<open>
  The theorem at a canned text that speaks of damage, and at a backend that rejects with
  an error that is not retried.
\<close>

theorem C3_witness:
  "degraded cannedDamage
   \<and> players (fst (finishAction demoSession thia ''look around'' cannedDamage 5)) = [(''p1'', thia)]
   \<and> combat (fst (finishAction demoSession thia ''look around'' cannedDamage 5)) = defaultCombatState
   \<and> map_of (players demoSession) (a_playerId thiaLooks) = Some thia
   \<and> \<not> isEndCommand (playerAction thiaLooks)
   \<and> degraded (fst (narrate brokenAi (serviceMaxAttempts None)))
   \<and> players (fst (handleAction demoSession (Some thiaLooks) 5 brokenAi)) = [(''p1'', thia)]
   \<and> combat (fst (handleAction demoSession (Some thiaLooks) 5 brokenAi)) = defaultCombatState"
proof -
  have h1: "degraded cannedDamage"
    by (simp add: cannedDamage_def)
  have h2: "map_of (players demoSession) (a_playerId thiaLooks) = Some thia"
    by (simp add: demoSession_players thiaLooks_def)
  have h3: "\<not> isEndCommand (playerAction thiaLooks)"
    by code_simp
  have h4: "degraded (fst (narrate brokenAi (serviceMaxAttempts None)))"
    by code_simp
  from C3_degraded_narration_frame[where narration = cannedDamage and s = demoSession
      and player = thia and action = "''look around''" and now = 5 and p = thiaLooks
      and ai = brokenAi] h1 h2 h3 h4
  show ?thesis by (simp add: demoSession_players demoSession_combat)
qed

text \<open>
  C4, amended.  In a session that the acting player has joined, an act request whose
  action text is an end-of-session command leaves the session empty: no players, no
  messages, the default combat state, also in the stored snapshot; the narration backend
  is not invoked.  Unless the session had been idle for 30 minutes or more, the answer is
  \<^verbatim>\<open>reset = true\<close> with an empty player roster and an inactive, empty combat state, and
  the session is removed from the registry under the session id of the payload.  When it
  had been idle that long (a session id is set and \<open>now - lastActivity\<close> is at least
  1 800 000 ms), the clean-up that \<^verbatim>\<open>fetch\<close> runs before every request has emptied the
  session and removed it from the registry already, and the answer is the client error
  \<^verbatim>\<open>Player not joined.\<close>
\<close>

theorem C4_end_command_resets:
  assumes "map_of (players s) (a_playerId p) = Some player"
    and "isEndCommand (playerAction p)"
  shows "(if idleExpired s now
          then snd (fetch s (ActionRequest (Some p)) now ai) = BadRequest ''Player not joined.''
             \<and> (\<exists>sid. sessionId s = Some sid
                  \<and> registryCalls (fst (fetch s (ActionRequest (Some p)) now ai)) =
                      registryCalls s @ [RegistryRemove sid])
          else (\<exists>r. snd (fetch s (ActionRequest (Some p)) now ai) = ActionOk r
                  \<and> reset r \<and> state_players r = [] \<and> \<not> active (state_combat r)
                  \<and> enemies (state_combat r) = [] \<and> turnOrder (state_combat r) = []
                  \<and> currentTurnIndex (state_combat r) = Num 0)
             \<and> registryCalls (fst (fetch s (ActionRequest (Some p)) now ai)) =
                 registryCalls s @ [RegistryRemove (a_sessionId p)])
       \<and> players (fst (fetch s (ActionRequest (Some p)) now ai)) = []
       \<and> messages (fst (fetch s (ActionRequest (Some p)) now ai)) = []
       \<and> combat (fst (fetch s (ActionRequest (Some p)) now ai)) = defaultCombatState
       \<and> stored (fst (fetch s (ActionRequest (Some p)) now ai)) =
           Some \<lparr>s_players = [], s_messages = [], s_combat = defaultCombatState,
                 s_lastActivity = now,
                 s_sessionId = sessionId (fst (fetch s (ActionRequest (Some p)) now ai))\<rparr>
       \<and> aiCalls (fst (fetch s (ActionRequest (Some p)) now ai)) = aiCalls s"
proof (cases "idleExpired s now")
  case False
  then have "fetch s (ActionRequest (Some p)) now ai = handleAction s (Some p) now ai"
    by (simp add: fetch_def cleanupIfIdle_kept)
  with False handleAction_end_command[OF assms, of now ai] show ?thesis by simp
next
  case True
  from cleanupIfIdle_expired[OF True] obtain sid where sid: "sessionId s = Some sid"
    and c: "cleanupIfIdle s now = persist (resetState (registryCall s (RegistryRemove sid)) now)"
    by blast
  have "fetch s (ActionRequest (Some p)) now ai =
      (orSessionId (cleanupIfIdle s now) (a_sessionId p), BadRequest ''Player not joined.'')"
    unfolding fetch_def Let_def request.case
    by (rule handleAction_unjoined) (simp add: c persist_def resetState_def touch_def)
  with True sid show ?thesis
    by (simp add: c orSessionId_def persist_def resetState_def touch_def registryCall_def)
qed

text \<open>
  The theorem in the session that Thia joined at time 0, nine milliseconds later; and the
  claim as it was stated, refuted in the same session 30 minutes later: the answer to
  \<^verbatim>\<open>End Game\<close> is not \<^verbatim>\<open>reset = true\<close> but the client error.
\<close>

theorem C4_witness:
  "map_of (players demoSession) (a_playerId thiaEnds) = Some thia
   \<and> isEndCommand (playerAction thiaEnds)
   \<and> \<not> idleExpired demoSession 9
   \<and> (\<exists>r. snd (fetch demoSession (ActionRequest (Some thiaEnds)) 9 silentAi) = ActionOk r \<and> reset r
          \<and> state_players r = [] \<and> \<not> active (state_combat r))
   \<and> players (fst (fetch demoSession (ActionRequest (Some thiaEnds)) 9 silentAi)) = []
   \<and> messages (fst (fetch demoSession (ActionRequest (Some thiaEnds)) 9 silentAi)) = []
   \<and> combat (fst (fetch demoSession (ActionRequest (Some thiaEnds)) 9 silentAi)) = defaultCombatState"
proof -
  have h1: "map_of (players demoSession) (a_playerId thiaEnds) = Some thia"
    by (simp add: demoSession_players thiaEnds_def)
  have h2: "isEndCommand (playerAction thiaEnds)"
    by code_simp
  have h3: "\<not> idleExpired demoSession 9"
    by code_simp
  from C4_end_command_resets[OF h1 h2, of 9 silentAi] h1 h2 h3
  show ?thesis by auto
qed

theorem C4_counterexample:
  "map_of (players demoSession) (a_playerId thiaEnds) = Some thia
   \<and> isEndCommand (playerAction thiaEnds)
   \<and> lastActivity demoSession = 0
   \<and> snd (fetch demoSession (ActionRequest (Some thiaEnds)) 1800000 silentAi)
       = BadRequest ''Player not joined.''"
  by code_simp

text \<open>
  C5, amended.  Under a 2-attempt policy, when the backend rejects every invocation,
  \<^verbatim>\<open>narrate\<close> returns the fixed fallback text with \<^verbatim>\<open>degraded = true\<close>; the backend is
  invoked exactly 2 times when the first rejection is retryable (its message matches
  \<^verbatim>\<open>timeout|timed out|network|503|504\<close>) and exactly once when it is not, because
  \<^verbatim>\<open>narrate\<close> leaves the loop at an error that is not retryable.
\<close>

theorem C5_rejecting_backend:
  assumes "\<And>k. ai k = Rejects (err k)"
  shows "fst (narrate ai (serviceMaxAttempts (Some 2))) = fallbackNarration
       \<and> n_text (fst (narrate ai (serviceMaxAttempts (Some 2)))) = FALLBACK_DM_TEXT
       \<and> degraded (fst (narrate ai (serviceMaxAttempts (Some 2))))
       \<and> snd (narrate ai (serviceMaxAttempts (Some 2))) = (if isRetryableError (err 0) then 2 else 1)"
proof -
  have m: "serviceMaxAttempts (Some 2) = 2"
    by (simp add: serviceMaxAttempts_def)
  have two: "narrateFrom ai 2 (Suc 0) = (fallbackNarration, 2)"
    by (subst narrateFrom.simps) (simp add: assms)
  have "narrateFrom ai 2 0 = (fallbackNarration, if isRetryableError (err 0) then 2 else 1)"
    by (subst narrateFrom.simps) (simp add: assms two)
  then show ?thesis
    by (simp add: narrate_def m fallbackNarration_def)
qed

text \<open>
  The theorem at the rejection \<^verbatim>\<open>504 Gateway Time-out\<close>, which is retried, and the claim
  as it was stated, refuted at a rejection that is not: the backend is invoked once.
\<close>

theorem C5_witness:
  "timeoutAi 0 = Rejects (ErrorObject ''Error'' ''InferenceUpstreamError: 504 Gateway Time-out'')
   \<and> isRetryableError (ErrorObject ''Error'' ''InferenceUpstreamError: 504 Gateway Time-out'')
   \<and> n_text (fst (narrate timeoutAi (serviceMaxAttempts (Some 2)))) = FALLBACK_DM_TEXT
   \<and> degraded (fst (narrate timeoutAi (serviceMaxAttempts (Some 2))))
   \<and> snd (narrate timeoutAi (serviceMaxAttempts (Some 2))) = 2"
proof -
  have h: "\<And>k. timeoutAi k = Rejects (ErrorObject ''Error'' ''InferenceUpstreamError: 504 Gateway Time-out'')"
    by (simp add: timeoutAi_def)
  have r: "isRetryableError (ErrorObject ''Error'' ''InferenceUpstreamError: 504 Gateway Time-out'')"
    by code_simp
  from C5_rejecting_backend[of timeoutAi "\<lambda>k. ErrorObject ''Error'' ''InferenceUpstreamError: 504 Gateway Time-out''", OF h] r h
  show ?thesis by (simp add: fallbackNarration_def)
qed

theorem C5_counterexample:
  "brokenAi 0 = Rejects (Thrown ''quota exceeded'')
   \<and> brokenAi 1 = Rejects (Thrown ''quota exceeded'')
   \<and> fst (narrate brokenAi (serviceMaxAttempts (Some 2))) = fallbackNarration
   \<and> snd (narrate brokenAi (serviceMaxAttempts (Some 2))) = 1"
  by code_simp







text \<open>
  C8, amended.  An act request with a well-formed payload whose player id is not in the
  player map is answered with the client error \<^verbatim>\<open>Player not joined.\<close> (status 400) and
  the narration backend is not invoked.  The session id of the coordinator is set from the
  payload when it had none (line 790).  Unless the session had been idle for 30 minutes or
  more, the player map, the message log, the combat state, the stored snapshot, the time
  of the last activity and the registry are the same after the request as before it.  When
  it had been idle that long, the clean-up that \<^verbatim>\<open>fetch\<close> runs first empties the player
  map and the message log, resets the combat state, overwrites the stored snapshot and
  removes the session from the registry.
\<close>

theorem C8_unjoined_player_rejected:
  assumes "map_of (players s) (a_playerId p) = None"
  shows "snd (fetch s (ActionRequest (Some p)) now ai) = BadRequest ''Player not joined.''
       \<and> aiCalls (fst (fetch s (ActionRequest (Some p)) now ai)) = aiCalls s
       \<and> sessionId (fst (fetch s (ActionRequest (Some p)) now ai)) =
           (case sessionId s of None \<Rightarrow> Some (a_sessionId p) | Some sid \<Rightarrow> Some sid)
       \<and> (if idleExpired s now
          then players (fst (fetch s (ActionRequest (Some p)) now ai)) = []
             \<and> messages (fst (fetch s (ActionRequest (Some p)) now ai)) = []
             \<and> combat (fst (fetch s (ActionRequest (Some p)) now ai)) = defaultCombatState
             \<and> stored (fst (fetch s (ActionRequest (Some p)) now ai)) =
                 Some \<lparr>s_players = [], s_messages = [], s_combat = defaultCombatState,
                       s_lastActivity = now, s_sessionId = sessionId s\<rparr>
             \<and> lastActivity (fst (fetch s (ActionRequest (Some p)) now ai)) = now
             \<and> (\<exists>sid. sessionId s = Some sid
                  \<and> registryCalls (fst (fetch s (ActionRequest (Some p)) now ai)) =
                      registryCalls s @ [RegistryRemove sid])
          else players (fst (fetch s (ActionRequest (Some p)) now ai)) = players s
             \<and> messages (fst (fetch s (ActionRequest (Some p)) now ai)) = messages s
             \<and> combat (fst (fetch s (ActionRequest (Some p)) now ai)) = combat s
             \<and> stored (fst (fetch s (ActionRequest (Some p)) now ai)) = stored s
             \<and> lastActivity (fst (fetch s (ActionRequest (Some p)) now ai)) = lastActivity s
             \<and> registryCalls (fst (fetch s (ActionRequest (Some p)) now ai)) = registryCalls s)"
proof (cases "idleExpired s now")
  case False
  then have "fetch s (ActionRequest (Some p)) now ai =
      (orSessionId s (a_sessionId p), BadRequest ''Player not joined.'')"
    by (simp add: fetch_def cleanupIfIdle_kept handleAction_unjoined[OF assms])
  with False show ?thesis by (simp add: orSessionId_def)
next
  case True
  from cleanupIfIdle_expired[OF True] obtain sid where sid: "sessionId s = Some sid"
    and c: "cleanupIfIdle s now = persist (resetState (registryCall s (RegistryRemove sid)) now)"
    by blast
  have "fetch s (ActionRequest (Some p)) now ai =
      (orSessionId (cleanupIfIdle s now) (a_sessionId p), BadRequest ''Player not joined.'')"
    unfolding fetch_def Let_def request.case
    by (rule handleAction_unjoined) (simp add: c persist_def resetState_def touch_def)
  with True sid show ?thesis
    by (simp add: c orSessionId_def persist_def resetState_def touch_def registryCall_def)
qed

text \<open>
  The theorem in the session that Thia joined, at a request of a stranger seven
  milliseconds later; and the claim as it was stated, refuted twice: a coordinator without
  a session id takes the one of the stranger's payload, and a stranger's request 30
  minutes later finds the session torn down before it is rejected.
\<close>

theorem C8_witness:
  "map_of (players demoSession) (a_playerId strangerLooks) = None
   \<and> \<not> idleExpired demoSession 7
   \<and> snd (fetch demoSession (ActionRequest (Some strangerLooks)) 7 silentAi)
       = BadRequest ''Player not joined.''
   \<and> players (fst (fetch demoSession (ActionRequest (Some strangerLooks)) 7 silentAi)) = [(''p1'', thia)]
   \<and> stored (fst (fetch demoSession (ActionRequest (Some strangerLooks)) 7 silentAi)) = stored demoSession
   \<and> aiCalls (fst (fetch demoSession (ActionRequest (Some strangerLooks)) 7 silentAi)) = aiCalls demoSession"
proof -
  have h: "map_of (players demoSession) (a_playerId strangerLooks) = None"
    by (simp add: demoSession_players strangerLooks_def)
  have h2: "\<not> idleExpired demoSession 7"
    by code_simp
  from C8_unjoined_player_rejected[OF h, of 7 silentAi] h h2
  show ?thesis by (simp add: demoSession_players)
qed

theorem C8_counterexample:
  "map_of (players (newCoordinator 0)) (a_playerId strangerLooks) = None
   \<and> sessionId (newCoordinator 0) = None
   \<and> sessionId (fst (fetch (newCoordinator 0) (ActionRequest (Some strangerLooks)) 7 silentAi))
       = Some ''demo''
   \<and> map_of (players demoSession) (a_playerId strangerLooks) = None
   \<and> players demoSession = [(''p1'', thia)]
   \<and> messages demoSession
       = [\<lparr>actor = ''DM'', content = ''Thia enters the campaign with basic equipment.'', ts = 0\<rparr>]
   \<and> snd (fetch demoSession (ActionRequest (Some strangerLooks)) 1800000 silentAi)
       = BadRequest ''Player not joined.''
   \<and> players (fst (fetch demoSession (ActionRequest (Some strangerLooks)) 1800000 silentAi)) = []
   \<and> messages (fst (fetch demoSession (ActionRequest (Some strangerLooks)) 1800000 silentAi)) = []
   \<and> stored (fst (fetch demoSession (ActionRequest (Some strangerLooks)) 1800000 silentAi))
       \<noteq> stored demoSession
   \<and> registryCalls (fst (fetch demoSession (ActionRequest (Some strangerLooks)) 1800000 silentAi))
       = [RegistryAdd ''demo'', RegistryRemove ''demo'']"
  by code_simp

text \<open>
  C9.  The combat-state invariant (when the active flag is false, the turn order and the
  enemy list are empty and the turn index is 0) holds of the default combat state and of a
  new coordinator, and is preserved by join, query and act (as handlers and as requests,
  idle clean-up included), by session reset, by effect resolution and each of its steps on
  the combat state, by combat end and by turn advance; it holds in every reachable state.
\<close>

theorem C9_combat_invariant:
  "combatInvariant defaultCombatState
   \<and> combatInvariant (combat (newCoordinator now0))
   \<and> (combatInvariant (combat s) \<longrightarrow>
         combatInvariant (combat (fst (handleJoin s joinPayload now)))
       \<and> combatInvariant (combat (fst (handleState s now)))
       \<and> combatInvariant (combat (fst (handleAction s actionPayload now ai)))
       \<and> combatInvariant (combat (cleanupIfIdle s now))
       \<and> combatInvariant (combat (fst (fetch s req now ai))))
   \<and> combatInvariant (combat (resetState s now))
   \<and> combatInvariant (startCombat es order)
   \<and> (combatInvariant c \<longrightarrow>
         combatInvariant (detectCombatScenarios dmText ps c)
       \<and> combatInvariant (applyEnemyDamage dmText c)
       \<and> combatInvariant (checkCombatEnd c)
       \<and> combatInvariant (snd (EffectResolver_apply dmText ps c))
       \<and> combatInvariant (nextTurn c))
   \<and> (reachable r \<longrightarrow> combatInvariant (combat r))"
  by (simp add: cinv_default newCoordinator_def combat_handleJoin combat_handleState
      cinv_handleAction cinv_cleanup cinv_fetch resetState_def touch_def cinv_detect cinv_damage
      cinv_checkCombatEnd cinv_apply cinv_nextTurn reachable_combatInvariant)
     (simp add: combatInvariant_def startCombat_def)

theorem C9_witness:
  "combatInvariant (combat demoSession)
   \<and> reachable battle
   \<and> combatInvariant (combat battle)
   \<and> active (combat battle)
   \<and> combatInvariant (combat (fst (handleAction demoSession (Some thiaEnds) 9 silentAi)))
   \<and> combat (fst (handleAction demoSession (Some thiaEnds) 9 silentAi)) = defaultCombatState"
proof -
  have h1: "combatInvariant (combat demoSession)"
    by (simp add: demoSession_combat combatInvariant_def defaultCombatState_def)
  have h2: "reachable battle" by (rule reachable_battle)
  have h3: "isEndCommand (playerAction thiaEnds)" by code_simp
  have e: "combat (fst (handleAction demoSession (Some thiaEnds) 9 silentAi)) = defaultCombatState"
    using h3 by (simp add: handleAction_def orSessionId_def demoSession_players thiaEnds_def
        combat_endSession)
  from C9_combat_invariant[where s = demoSession and r = battle and now = 9 and ai = silentAi
      and actionPayload = "Some thiaEnds"] h1 h2
  show ?thesis by (simp add: battle_combat e)
qed

text \<open>
  C10, amended.  In every reachable state whose combat is active, the turn order is not
  empty and the turn index is a number \<open>k\<close> with \<open>0 \<le> k < length turnOrder\<close>; so the
  modulo step of \<^verbatim>\<open>nextTurn\<close> yields the number \<open>(k + 1) mod length turnOrder\<close>, and
  \<^verbatim>\<open>getCurrentTurn\<close> returns the entry of the turn order at \<open>k\<close>, or \<^verbatim>\<open>null\<close> when that
  entry is the empty string.
\<close>

theorem C10_turn_index_valid:
  assumes "reachable s" and "active (combat s)"
  shows "turnOrder (combat s) \<noteq> []
       \<and> (\<exists>k. currentTurnIndex (combat s) = Num k \<and> 0 \<le> k \<and> k < int (length (turnOrder (combat s)))
              \<and> currentTurnIndex (nextTurn (combat s)) = Num ((k + 1) mod int (length (turnOrder (combat s))))
              \<and> getCurrentTurn (combat s) =
                    (if turnOrder (combat s) ! nat k = [] then None
                     else Some (turnOrder (combat s) ! nat k)))"
proof -
  from assms have tv: "turnOrder (combat s) \<noteq> []" "indexInRange (combat s)"
    using reachable_turnValid[of s] by (simp_all add: turnValid_def)
  from tv(2) obtain k where k: "currentTurnIndex (combat s) = Num k" "0 \<le> k"
      "k < int (length (turnOrder (combat s)))"
    by (auto simp: indexInRange_def split: jsval.splits)
  have n: "currentTurnIndex (nextTurn (combat s)) = Num ((k + 1) mod int (length (turnOrder (combat s))))"
    using assms(2) k by (simp add: nextTurn_def nextIndex_in_range)
  have g: "getCurrentTurn (combat s) =
      (if turnOrder (combat s) ! nat k = [] then None else Some (turnOrder (combat s) ! nat k))"
    using assms(2) tv(1) k by (rule getCurrentTurn_active)
  from tv(1) k n g show ?thesis by blast
qed

text \<open>
  The theorem in a combat that Thia started, and the claim as it was stated, refuted:
  a player may join with the empty name, and while that player holds the turn
  \<^verbatim>\<open>getCurrentTurn\<close> returns \<^verbatim>\<open>null\<close> in an active combat.
\<close>

theorem C10_witness:
  "reachable battle \<and> active (combat battle)
   \<and> turnOrder (combat battle) = [''Thia'', ''Goblin'']
   \<and> currentTurnIndex (combat battle) = Num 1
   \<and> currentTurnIndex (nextTurn (combat battle)) = Num 0
   \<and> getCurrentTurn (combat battle) = Some ''Goblin''"
proof -
  have h1: "reachable battle" by (rule reachable_battle)
  have h2: "active (combat battle)" by (simp add: battle_combat)
  from C10_turn_index_valid[OF h1 h2] h1 h2
  show ?thesis by (auto simp: battle_combat)
qed

theorem C10_counterexample:
  "reachable namelessBattle \<and> active (combat namelessBattle)
   \<and> getCurrentTurn (combat namelessBattle) = None"
  by (simp add: reachable_namelessBattle namelessBattle_combat getCurrentTurn_def js_index_def)

end
